theory Spec2Isabelle
  imports Complex_Main
begin

section \<open>Leaf wetness model: the estimator of awn\_leaf\_wetness.py\<close>

text \<open>
  The estimator works on a pandas DataFrame of float64 columns. A column cell is
  modelled as a real number or one of the three special values of float64. The
  arithmetic follows numpy: no operation on a column raises; a division by zero, a
  power of a negative base with a fractional exponent and a result too large for a
  double give an infinity or NaN instead. What is not modelled is the rounding of
  results that are in range (finite results are exact reals), underflow to zero, and
  the sign of zero (every zero is +0).
\<close>

subsection \<open>float64 cells\<close>

datatype npfloat = Fin real | PInf | NInf | NaN

text \<open>Results whose magnitude reaches \<open>2^1024 - 2^970\<close> round to an infinity.\<close>

definition float_overflow :: real where
  "float_overflow = 2 ^ 1024 - 2 ^ 970"

definition rnd :: "real \<Rightarrow> npfloat" where
  "rnd r = (if float_overflow \<le> r then PInf
            else if r \<le> - float_overflow then NInf
            else Fin r)"

fun is_finite :: "npfloat \<Rightarrow> bool" where
  "is_finite (Fin r) = True"
| "is_finite PInf = False"
| "is_finite NInf = False"
| "is_finite NaN = False"

fun fneg :: "npfloat \<Rightarrow> npfloat" where
  "fneg (Fin r) = Fin (- r)"
| "fneg PInf = NInf"
| "fneg NInf = PInf"
| "fneg NaN = NaN"

fun fadd :: "npfloat \<Rightarrow> npfloat \<Rightarrow> npfloat" where
  "fadd (Fin a) (Fin b) = rnd (a + b)"
| "fadd NaN y = NaN"
| "fadd x NaN = NaN"
| "fadd PInf NInf = NaN"
| "fadd NInf PInf = NaN"
| "fadd PInf y = PInf"
| "fadd NInf y = NInf"
| "fadd x PInf = PInf"
| "fadd x NInf = NInf"

definition fsub :: "npfloat \<Rightarrow> npfloat \<Rightarrow> npfloat" where
  "fsub x y = fadd x (fneg y)"

text \<open>The sign of an infinity times or over a finite value.\<close>

fun signed_inf :: "bool \<Rightarrow> npfloat" where
  "signed_inf True = PInf"
| "signed_inf False = NInf"

fun fmul :: "npfloat \<Rightarrow> npfloat \<Rightarrow> npfloat" where
  "fmul (Fin a) (Fin b) = rnd (a * b)"
| "fmul NaN y = NaN"
| "fmul x NaN = NaN"
| "fmul (Fin a) PInf = (if a = 0 then NaN else signed_inf (0 < a))"
| "fmul (Fin a) NInf = (if a = 0 then NaN else signed_inf (a < 0))"
| "fmul PInf (Fin b) = (if b = 0 then NaN else signed_inf (0 < b))"
| "fmul NInf (Fin b) = (if b = 0 then NaN else signed_inf (b < 0))"
| "fmul PInf PInf = PInf"
| "fmul NInf NInf = PInf"
| "fmul PInf NInf = NInf"
| "fmul NInf PInf = NInf"

fun fdiv :: "npfloat \<Rightarrow> npfloat \<Rightarrow> npfloat" where
  "fdiv (Fin a) (Fin b) =
     (if b = 0 then (if a = 0 then NaN else signed_inf (0 < a)) else rnd (a / b))"
| "fdiv NaN y = NaN"
| "fdiv x NaN = NaN"
| "fdiv (Fin a) PInf = Fin 0"
| "fdiv (Fin a) NInf = Fin 0"
| "fdiv PInf (Fin b) = signed_inf (0 \<le> b)"
| "fdiv NInf (Fin b) = signed_inf (b < 0)"
| "fdiv PInf PInf = NaN"
| "fdiv PInf NInf = NaN"
| "fdiv NInf PInf = NaN"
| "fdiv NInf NInf = NaN"

text \<open>\<open>np.exp\<close>.\<close>

fun fexp :: "npfloat \<Rightarrow> npfloat" where
  "fexp (Fin r) = rnd (exp r)"
| "fexp PInf = PInf"
| "fexp NInf = Fin 0"
| "fexp NaN = NaN"

text \<open>
  \<open>x ** n\<close> of a column for a positive integer \<open>n\<close> (the source uses 2 and 3), and
  \<open>x ** y\<close> for a positive exponent that is not an integer (the source uses 0.5 and
  0.6): a negative base gives NaN there.
\<close>

fun fpow_nat :: "npfloat \<Rightarrow> nat \<Rightarrow> npfloat" where
  "fpow_nat (Fin r) n = rnd (r ^ n)"
| "fpow_nat PInf n = PInf"
| "fpow_nat NInf n = (if even n then PInf else NInf)"
| "fpow_nat NaN n = NaN"

fun fpow_frac :: "npfloat \<Rightarrow> real \<Rightarrow> npfloat" where
  "fpow_frac (Fin r) y = (if r < 0 then NaN else rnd (r powr y))"
| "fpow_frac PInf y = PInf"
| "fpow_frac NInf y = PInf"
| "fpow_frac NaN y = NaN"

text \<open>\<open>np.log\<close> of a Python scalar: a numpy float64, never an exception.\<close>

definition np_log :: "real \<Rightarrow> npfloat" where
  "np_log r = (if 0 < r then Fin (ln r) else if r = 0 then NInf else NaN)"

text \<open>Comparisons: every comparison with NaN is false.\<close>

fun flt :: "npfloat \<Rightarrow> npfloat \<Rightarrow> bool" where
  "flt (Fin a) (Fin b) = (a < b)"
| "flt NaN y = False"
| "flt x NaN = False"
| "flt x NInf = False"
| "flt PInf y = False"
| "flt NInf y = True"
| "flt x PInf = True"

definition fgt :: "npfloat \<Rightarrow> npfloat \<Rightarrow> bool" where
  "fgt x y = flt y x"

subsection \<open>Errors, the configuration and the DataFrame\<close>

text \<open>
  Python scalars (the configuration values and what is computed from them alone) are
  reals; a division of Python scalars by zero raises \<open>ZeroDivisionError\<close>. A missing
  column raises \<open>KeyError\<close> with the column's name.
\<close>

datatype error = KeyError string | ZeroDivisionError

definition bind_err :: "error + 'a \<Rightarrow> ('a \<Rightarrow> error + 'b) \<Rightarrow> error + 'b" where
  "bind_err m f = (case m of Inl e \<Rightarrow> Inl e | Inr x \<Rightarrow> f x)"

text \<open>The dictionary \<open>config\<close>; the key \<open>n\<close> is the field \<open>n_stomata\<close>.\<close>

record config =
  Z_reference :: real
  Zc :: real
  alpha :: real
  LAI :: real
  Wmax :: real
  Wf :: real
  shape_scale_film_cf :: real
  shape_scale_drop_cd :: real
  dimension_of_leaf_m :: real
  width_of_leaf_m :: real
  n_stomata :: real
  mean_length_of_pore_l :: real
  diameter_of_pore_d :: real
  critical_DPD :: real
  psychr_constant_mbar :: real
  density_of_air_g_cm3 :: real
  specific_heat_of_air_Jg_C :: real
  latent_heat_of_vaporization_J_g :: real
  kinematic_viscosity_of_air :: real
  emissivity :: real
  stefan_boltzmann_constant :: real
  density_of_air_kg_m3 :: real
  specific_heat_of_air_J_kg_K :: real
  diffusion_coefficient_of_water_vapor_D :: real
  latent_heat_of_condensation_J_kg :: real
  psychrometer_constant_Pa_K :: real

text \<open>The module-level dictionary of the source, value by value.\<close>

definition default_config :: config where
  "default_config = \<lparr>
     Z_reference = 200,
     Zc = 150,
     alpha = 1.3,
     LAI = 2.88,
     Wmax = 0.5,
     Wf = 0.3,
     shape_scale_film_cf = 1.78577026808484,
     shape_scale_drop_cd = 4.23057517532205,
     dimension_of_leaf_m = 0.126563029533657,
     width_of_leaf_m = 0.12,
     n_stomata = 196232004,
     mean_length_of_pore_l = 0.000025,
     diameter_of_pore_d = 0.00000623,
     critical_DPD = 1.845,
     psychr_constant_mbar = 0.670680828,
     density_of_air_g_cm3 = 0.001225,
     specific_heat_of_air_Jg_C = 1.012,
     latent_heat_of_vaporization_J_g = 2450,
     kinematic_viscosity_of_air = 0.0000156,
     emissivity = 0.99,
     stefan_boltzmann_constant = 5.67037 / 10 ^ 8,
     density_of_air_kg_m3 = 1.293,
     specific_heat_of_air_J_kg_K = 1005,
     diffusion_coefficient_of_water_vapor_D = 0.0000212,
     latent_heat_of_condensation_J_kg = 2257000,
     psychrometer_constant_Pa_K = 0.245670633 \<rparr>"

text \<open>
  A Series is its cells by row position; a DataFrame is its number of rows and its
  columns by name. Only the cells at positions below \<open>nrows\<close> are rows of the table.
  Every cell is a float64: a number that is missing from a row is the cell NaN, as pandas
  stores it, and columns of other types (strings, timestamps) are left out. The
  estimator assigns its columns to the DataFrame it is given, so the DataFrame is
  state: it is passed in and returned. One case is taken as the general one: on a table
  without rows, what \<open>DataFrame.apply(axis=1)\<close> returns has changed between pandas
  versions; here the empty table gives the empty list of records.
\<close>

type_synonym series = "nat \<Rightarrow> npfloat"

record frame =
  nrows :: nat
  columns :: "string \<rightharpoonup> series"

text \<open>\<open>data[k]\<close> and \<open>data[k] = s\<close>.\<close>

definition getitem :: "frame \<Rightarrow> string \<Rightarrow> error + series" where
  "getitem data k = (case columns data k of None \<Rightarrow> Inl (KeyError k) | Some s \<Rightarrow> Inr s)"

definition setitem :: "frame \<Rightarrow> string \<Rightarrow> series \<Rightarrow> frame" where
  "setitem data k s = data\<lparr>columns := (columns data)(k \<mapsto> s)\<rparr>"

text \<open>
  One assignment \<open>data[dst] = f(data[a], ...)\<close> of an elementwise expression: the
  columns it reads are looked up left to right, then the new column is stored.
\<close>

definition assign1 ::
  "string \<Rightarrow> string \<Rightarrow> (npfloat \<Rightarrow> npfloat) \<Rightarrow> frame \<Rightarrow> error + frame" where
  "assign1 dst a f data =
     bind_err (getitem data a) (\<lambda>x. Inr (setitem data dst (\<lambda>i. f (x i))))"

definition assign2 ::
  "string \<Rightarrow> string \<Rightarrow> string \<Rightarrow> (npfloat \<Rightarrow> npfloat \<Rightarrow> npfloat) \<Rightarrow> frame \<Rightarrow> error + frame" where
  "assign2 dst a b f data =
     bind_err (getitem data a) (\<lambda>x. bind_err (getitem data b) (\<lambda>y.
       Inr (setitem data dst (\<lambda>i. f (x i) (y i)))))"

definition assign3 ::
  "string \<Rightarrow> string \<Rightarrow> string \<Rightarrow> string \<Rightarrow>
   (npfloat \<Rightarrow> npfloat \<Rightarrow> npfloat \<Rightarrow> npfloat) \<Rightarrow> frame \<Rightarrow> error + frame" where
  "assign3 dst a b c f data =
     bind_err (getitem data a) (\<lambda>x. bind_err (getitem data b) (\<lambda>y.
     bind_err (getitem data c) (\<lambda>z.
       Inr (setitem data dst (\<lambda>i. f (x i) (y i) (z i))))))"

definition assign4 ::
  "string \<Rightarrow> string \<Rightarrow> string \<Rightarrow> string \<Rightarrow> string \<Rightarrow>
   (npfloat \<Rightarrow> npfloat \<Rightarrow> npfloat \<Rightarrow> npfloat \<Rightarrow> npfloat) \<Rightarrow> frame \<Rightarrow> error + frame" where
  "assign4 dst a b c d f data =
     bind_err (getitem data a) (\<lambda>x. bind_err (getitem data b) (\<lambda>y.
     bind_err (getitem data c) (\<lambda>z. bind_err (getitem data d) (\<lambda>u.
       Inr (setitem data dst (\<lambda>i. f (x i) (y i) (z i) (u i)))))))"

fun run_stages :: "(frame \<Rightarrow> error + frame) list \<Rightarrow> frame \<Rightarrow> error + frame" where
  "run_stages [] data = Inr data"
| "run_stages (s # ss) data = bind_err (s data) (run_stages ss)"

subsection \<open>The constants computed from the configuration\<close>

text \<open>
  \<open>Zo\<close>, \<open>D\<close>, \<open>W\<close>, \<open>c\<close>, \<open>Surface_Area\<close> and \<open>rS\<close> of the source (the one-letter names
  carry a suffix here). \<open>rS\<close> is a quotient of Python scalars, so it can raise.
\<close>

definition Zo :: "config \<Rightarrow> real" where
  "Zo cfg = Z_reference cfg * 0.1"

definition D_plane :: "config \<Rightarrow> real" where
  "D_plane cfg = 0.66 * Zc cfg"

definition W_frac :: "config \<Rightarrow> real" where
  "W_frac cfg = Wmax cfg * Wf cfg"

definition c_shape :: "config \<Rightarrow> real" where
  "c_shape cfg =
     (Wmax cfg * shape_scale_film_cf cfg) + ((1 - Wmax cfg) * shape_scale_drop_cd cfg)"

definition Surface_Area :: "config \<Rightarrow> real" where
  "Surface_Area cfg = width_of_leaf_m cfg * dimension_of_leaf_m cfg"

definition rS :: "config \<Rightarrow> error + real" where
  "rS cfg =
     (let num = 4 * (mean_length_of_pore_l cfg + (pi * diameter_of_pore_d cfg) / 8);
          den = pi * n_stomata cfg * (diameter_of_pore_d cfg ^ 2)
                  * diffusion_coefficient_of_water_vapor_D cfg
      in if den = 0 then Inl ZeroDivisionError else Inr (num / den))"

text \<open>
  The two scalar factors of the canopy wind speed: the ratio of logarithms (the
  quotients inside are Python divisions, the logarithms and their quotient are numpy's)
  and the correction factor \<open>(1 + alpha * ((1 - Zc) / Z_reference)) ** -2\<close>, a Python
  power that raises on a zero base.
\<close>

definition log_profile_ratio :: "config \<Rightarrow> error + npfloat" where
  "log_profile_ratio cfg =
     (if Zo cfg = 0 then Inl ZeroDivisionError
      else Inr (fdiv (np_log ((Zc cfg - D_plane cfg) / Zo cfg))
                     (np_log ((Z_reference cfg - D_plane cfg) / Zo cfg))))"

definition profile_correction :: "config \<Rightarrow> error + real" where
  "profile_correction cfg =
     (if Z_reference cfg = 0 then Inl ZeroDivisionError
      else let b = 1 + alpha cfg * ((1 - Zc cfg) / Z_reference cfg)
           in if b = 0 then Inl ZeroDivisionError else Inr (1 / b ^ 2))"

subsection \<open>The expression of each derived column\<close>

text \<open>Lines 91 and 92: \<open>(x - 32) * 5/9\<close>.\<close>

definition fahrenheit_to_celsius :: "npfloat \<Rightarrow> npfloat" where
  "fahrenheit_to_celsius x = fdiv (fmul (fsub x (Fin 32)) (Fin 5)) (Fin 9)"

definition DPD_of :: "npfloat \<Rightarrow> npfloat \<Rightarrow> npfloat" where
  "DPD_of tc dc = fsub tc dc"

definition SVP_of :: "npfloat \<Rightarrow> npfloat" where
  "SVP_of tc =
     fmul (Fin 0.6108) (fexp (fdiv (fmul (Fin 17.27) tc) (fadd tc (Fin 237.3))))"

definition Slope_kPa_of :: "npfloat \<Rightarrow> npfloat \<Rightarrow> npfloat" where
  "Slope_kPa_of svp tc = fdiv (fmul (Fin 4098) svp) (fpow_nat (fadd tc (Fin 237.3)) 2)"

definition Slope_mbar_of :: "npfloat \<Rightarrow> npfloat" where
  "Slope_mbar_of sk = fmul sk (Fin 10)"

definition AVP_of :: "npfloat \<Rightarrow> npfloat \<Rightarrow> npfloat" where
  "AVP_of svp rh = fmul svp (fdiv rh (Fin 100))"

definition Uz_of :: "npfloat \<Rightarrow> npfloat" where
  "Uz_of w = fmul (Fin 2682.4) w"

definition Uc_of :: "npfloat \<Rightarrow> real \<Rightarrow> npfloat \<Rightarrow> npfloat" where
  "Uc_of ratio k uz = fmul (fmul uz ratio) (Fin k)"

definition Transfer_Coefficient_of :: "config \<Rightarrow> npfloat \<Rightarrow> npfloat" where
  "Transfer_Coefficient_of cfg uc = fmul (Fin (c_shape cfg)) (fpow_frac uc 0.5)"

definition Ep_of :: "config \<Rightarrow> npfloat \<Rightarrow> npfloat \<Rightarrow> npfloat \<Rightarrow> npfloat \<Rightarrow> npfloat" where
  "Ep_of cfg sm tco svp avp =
     fmul
       (fmul
          (fdiv sm (fmul (Fin (latent_heat_of_vaporization_J_g cfg))
                         (fadd sm (Fin (psychr_constant_mbar cfg)))))
          (fmul (Fin (density_of_air_g_cm3 cfg * specific_heat_of_air_Jg_C cfg))
                (fdiv tco sm)))
       (fmul (fsub svp avp) (Fin 10))"

definition E_of :: "config \<Rightarrow> npfloat \<Rightarrow> npfloat" where
  "E_of cfg ep = fmul ep (Fin (W_frac cfg))"

text \<open>Line 123: \<open>0.44704 * x if x > 0 else 0.001\<close>.\<close>

definition Wind_Speed_ms_of :: "npfloat \<Rightarrow> npfloat" where
  "Wind_Speed_ms_of x = (if fgt x (Fin 0) then fmul (Fin 0.44704) x else Fin 0.001)"

definition Reynolds_Number_of :: "config \<Rightarrow> npfloat \<Rightarrow> npfloat" where
  "Reynolds_Number_of cfg ws =
     fdiv (fmul ws (Fin (dimension_of_leaf_m cfg))) (Fin (kinematic_viscosity_of_air cfg))"

definition Nusselt_Number_of :: "npfloat \<Rightarrow> npfloat" where
  "Nusselt_Number_of re = fmul (Fin 0.72) (fpow_frac re 0.6)"

definition rB_of :: "config \<Rightarrow> npfloat \<Rightarrow> npfloat" where
  "rB_of cfg nu = fdiv (Fin (dimension_of_leaf_m cfg)) (fmul (Fin 0.0000215) nu)"

definition hLW_of :: "config \<Rightarrow> npfloat \<Rightarrow> npfloat" where
  "hLW_of cfg tc =
     fmul (Fin (4 * emissivity cfg * stefan_boltzmann_constant cfg))
          (fpow_nat (fadd tc (Fin 273.15)) 3)"

definition hH_of :: "config \<Rightarrow> npfloat \<Rightarrow> npfloat" where
  "hH_of cfg rb = fdiv (Fin (density_of_air_kg_m3 cfg * specific_heat_of_air_J_kg_K cfg)) rb"

definition Slope_Pa_K_of :: "npfloat \<Rightarrow> npfloat" where
  "Slope_Pa_K_of sk = fdiv (fmul sk (Fin 1000)) (Fin 273)"

definition hET_of :: "config \<Rightarrow> real \<Rightarrow> npfloat \<Rightarrow> npfloat \<Rightarrow> npfloat" where
  "hET_of cfg rs spk rb =
     fmul (Fin (density_of_air_kg_m3 cfg * specific_heat_of_air_J_kg_K cfg))
          (fdiv spk (fmul (Fin (psychrometer_constant_Pa_K cfg)) (fadd rb (Fin rs))))"

definition Leaf_Heat_Transfer_Coefficient_of :: "npfloat \<Rightarrow> npfloat \<Rightarrow> npfloat \<Rightarrow> npfloat" where
  "Leaf_Heat_Transfer_Coefficient_of hlw hh het = fadd (fadd hlw hh) het"

definition Rhe_of :: "config \<Rightarrow> npfloat \<Rightarrow> npfloat \<Rightarrow> npfloat \<Rightarrow> npfloat" where
  "Rhe_of cfg lhtc tc dc = fmul (fmul lhtc (Fin (Surface_Area cfg))) (fsub tc dc)"

definition condensation_g_s_of :: "config \<Rightarrow> npfloat \<Rightarrow> npfloat" where
  "condensation_g_s_of cfg rhe =
     fmul (fdiv rhe (Fin (latent_heat_of_condensation_J_kg cfg))) (Fin 1000)"

definition condensation_mm_of :: "config \<Rightarrow> npfloat \<Rightarrow> npfloat" where
  "condensation_mm_of cfg cgs =
     fmul (fmul (fmul (fmul (fdiv cgs (Fin (Surface_Area cfg * 10000))) (Fin 10)) (Fin 60))
                (Fin 15)) (Fin 2)"

text \<open>Line 157: \<open>np.where(DPD < critical_DPD, condensation, 0)\<close>.\<close>

definition DPD_constraint :: "config \<Rightarrow> npfloat \<Rightarrow> npfloat \<Rightarrow> npfloat" where
  "DPD_constraint cfg dpd cmm = (if flt dpd (Fin (critical_DPD cfg)) then cmm else Fin 0)"

text \<open>Line 160: \<open>np.where(PRECIP_INCHES > 0, 0.6, 0)\<close>.\<close>

definition Rain_Interception_of :: "npfloat \<Rightarrow> npfloat" where
  "Rain_Interception_of p = (if fgt p (Fin 0) then Fin 0.6 else Fin 0)"

definition Evaporation_of :: "npfloat \<Rightarrow> npfloat" where
  "Evaporation_of e = fmul (fmul e (Fin 10)) (Fin 15)"

text \<open>Lines 166 to 170, the function applied to every row.\<close>

definition leaf_wetness_row :: "npfloat \<Rightarrow> npfloat \<Rightarrow> npfloat \<Rightarrow> npfloat \<Rightarrow> npfloat" where
  "leaf_wetness_row cmm rain evap tf =
     (if fgt tf (Fin 32) then fsub (fadd cmm rain) evap else Fin 0)"

text \<open>Line 173: \<open>np.where(wetness > 0, wetness, 0)\<close>.\<close>

definition no_negative :: "npfloat \<Rightarrow> npfloat" where
  "no_negative x = (if fgt x (Fin 0) then x else Fin 0)"

subsection \<open>The estimator\<close>

text \<open>Line 109 reads \<open>Uz\<close>, then evaluates the two scalar factors, which can raise.\<close>

definition assign_Uc :: "config \<Rightarrow> frame \<Rightarrow> error + frame" where
  "assign_Uc cfg data =
     bind_err (getitem data ''Uz'') (\<lambda>uz.
     bind_err (log_profile_ratio cfg) (\<lambda>ratio.
     bind_err (profile_correction cfg) (\<lambda>k.
       Inr (setitem data ''Uc'' (\<lambda>i. Uc_of ratio k (uz i))))))"

text \<open>Lines 91 to 173, one entry for each assignment to a column, in the source's order.\<close>

definition stages :: "config \<Rightarrow> real \<Rightarrow> (frame \<Rightarrow> error + frame) list" where
  "stages cfg rs =
    [assign1 ''AIR_TEMP_C'' ''AIR_TEMP_F'' fahrenheit_to_celsius,
     assign1 ''DEWPOINT_C'' ''DEWPOINT_F'' fahrenheit_to_celsius,
     assign2 ''DPD'' ''AIR_TEMP_C'' ''DEWPOINT_C'' DPD_of,
     assign1 ''SVP'' ''AIR_TEMP_C'' SVP_of,
     assign2 ''Slope_kPa'' ''SVP'' ''AIR_TEMP_C'' Slope_kPa_of,
     assign1 ''Slope_mbar'' ''Slope_kPa'' Slope_mbar_of,
     assign2 ''AVP'' ''SVP'' ''RELATIVE_HUMIDITY_%'' AVP_of,
     assign1 ''Uz'' ''WIND_SPEED_2M_MPH'' Uz_of,
     assign_Uc cfg,
     assign1 ''Transfer_Coefficient (cm min^-1)'' ''Uc'' (Transfer_Coefficient_of cfg),
     assign4 ''Ep'' ''Slope_mbar'' ''Transfer_Coefficient (cm min^-1)'' ''SVP'' ''AVP''
       (Ep_of cfg),
     assign1 ''E (cm/min)'' ''Ep'' (E_of cfg),
     assign1 ''Wind Speed (m/s)'' ''WIND_SPEED_2M_MPH'' Wind_Speed_ms_of,
     assign1 ''Reynolds Number'' ''Wind Speed (m/s)'' (Reynolds_Number_of cfg),
     assign1 ''Nusselt Number'' ''Reynolds Number'' Nusselt_Number_of,
     assign1 ''rB (s/m)'' ''Nusselt Number'' (rB_of cfg),
     assign1 ''hLW'' ''AIR_TEMP_C'' (hLW_of cfg),
     assign1 ''hH'' ''rB (s/m)'' (hH_of cfg),
     assign1 ''Slope_Pa_K'' ''Slope_kPa'' Slope_Pa_K_of,
     assign2 ''hET'' ''Slope_Pa_K'' ''rB (s/m)'' (hET_of cfg rs),
     assign3 ''Leaf Heat Transfer Coefficient (W/m^2/K)'' ''hLW'' ''hH'' ''hET''
       Leaf_Heat_Transfer_Coefficient_of,
     assign3 ''Rhe (J/s)'' ''Leaf Heat Transfer Coefficient (W/m^2/K)'' ''AIR_TEMP_C''
       ''DEWPOINT_C'' (Rhe_of cfg),
     assign1 ''Potential condensation of dew (g/s)'' ''Rhe (J/s)'' (condensation_g_s_of cfg),
     assign1 ''Potential condensation of dew (mm)'' ''Potential condensation of dew (g/s)''
       (condensation_mm_of cfg),
     assign2 ''Potential condensation of dew (mm)'' ''DPD''
       ''Potential condensation of dew (mm)'' (DPD_constraint cfg),
     assign1 ''Rain Interception (mm)'' ''PRECIP_INCHES'' Rain_Interception_of,
     assign1 ''Evaporation (mm)'' ''E (cm/min)'' Evaporation_of,
     assign4 ''Estimated Leaf Wetness (mm)'' ''Potential condensation of dew (mm)''
       ''Rain Interception (mm)'' ''Evaporation (mm)'' ''AIR_TEMP_F'' leaf_wetness_row,
     assign1 ''Estimated Leaf Wetness (mm)'' ''Estimated Leaf Wetness (mm)'' no_negative]"

text \<open>Line 176: the six published columns, as one dictionary for each row.\<close>

definition published :: "string list" where
  "published =
    [''AIR_TEMP_F'', ''DEWPOINT_F'', ''WIND_SPEED_2M_MPH'', ''RELATIVE_HUMIDITY_%'',
     ''Potential condensation of dew (mm)'', ''Estimated Leaf Wetness (mm)'']"

fun select_columns :: "frame \<Rightarrow> string list \<Rightarrow> error + (string \<times> series) list" where
  "select_columns data [] = Inr []"
| "select_columns data (k # ks) =
     bind_err (getitem data k) (\<lambda>s.
     bind_err (select_columns data ks) (\<lambda>r. Inr ((k, s) # r)))"

definition to_dict_records :: "nat \<Rightarrow> (string \<times> series) list \<Rightarrow> (string \<times> npfloat) list list" where
  "to_dict_records n cs = map (\<lambda>i. map (\<lambda>(k, s). (k, s i)) cs) [0..<n]"

text \<open>
  \<open>estimate_leaf_wetness(data, config)\<close>. The DataFrame is changed in place, so the
  model returns it beside the list of records; an exception leaves no result.
\<close>

definition estimate_leaf_wetness ::
  "frame \<Rightarrow> config \<Rightarrow> error + (frame \<times> (string \<times> npfloat) list list)" where
  "estimate_leaf_wetness data cfg =
     bind_err (rS cfg) (\<lambda>rs.
     bind_err (run_stages (stages cfg rs) data) (\<lambda>data'.
     bind_err (select_columns data' published) (\<lambda>cs.
       Inr (data', to_dict_records (nrows data') cs))))"

subsection \<open>The derived columns as functions of a row's raw fields\<close>

text \<open>
  Every assignment is elementwise, so each derived cell is a function of the raw cells
  of its own row (and of the constants). These are the compositions of the column
  expressions along the pipeline; \<open>run_stages_raw\<close> below proves that the pipeline
  stores exactly them.
\<close>

definition row_DPD :: "npfloat \<Rightarrow> npfloat \<Rightarrow> npfloat" where
  "row_DPD tf df = DPD_of (fahrenheit_to_celsius tf) (fahrenheit_to_celsius df)"

definition row_SVP :: "npfloat \<Rightarrow> npfloat" where
  "row_SVP tf = SVP_of (fahrenheit_to_celsius tf)"

definition row_Slope_kPa :: "npfloat \<Rightarrow> npfloat" where
  "row_Slope_kPa tf = Slope_kPa_of (row_SVP tf) (fahrenheit_to_celsius tf)"

definition row_Slope_mbar :: "npfloat \<Rightarrow> npfloat" where
  "row_Slope_mbar tf = Slope_mbar_of (row_Slope_kPa tf)"

definition row_AVP :: "npfloat \<Rightarrow> npfloat \<Rightarrow> npfloat" where
  "row_AVP tf rh = AVP_of (row_SVP tf) rh"

definition row_Uc :: "npfloat \<Rightarrow> real \<Rightarrow> npfloat \<Rightarrow> npfloat" where
  "row_Uc ratio k w = Uc_of ratio k (Uz_of w)"

definition row_Transfer_Coefficient :: "config \<Rightarrow> npfloat \<Rightarrow> real \<Rightarrow> npfloat \<Rightarrow> npfloat" where
  "row_Transfer_Coefficient cfg ratio k w = Transfer_Coefficient_of cfg (row_Uc ratio k w)"

definition row_Ep ::
  "config \<Rightarrow> npfloat \<Rightarrow> real \<Rightarrow> npfloat \<Rightarrow> npfloat \<Rightarrow> npfloat \<Rightarrow> npfloat" where
  "row_Ep cfg ratio k tf rh w =
     Ep_of cfg (row_Slope_mbar tf) (row_Transfer_Coefficient cfg ratio k w)
       (row_SVP tf) (row_AVP tf rh)"

definition row_E ::
  "config \<Rightarrow> npfloat \<Rightarrow> real \<Rightarrow> npfloat \<Rightarrow> npfloat \<Rightarrow> npfloat \<Rightarrow> npfloat" where
  "row_E cfg ratio k tf rh w = E_of cfg (row_Ep cfg ratio k tf rh w)"

definition row_Reynolds :: "config \<Rightarrow> npfloat \<Rightarrow> npfloat" where
  "row_Reynolds cfg w = Reynolds_Number_of cfg (Wind_Speed_ms_of w)"

definition row_Nusselt :: "config \<Rightarrow> npfloat \<Rightarrow> npfloat" where
  "row_Nusselt cfg w = Nusselt_Number_of (row_Reynolds cfg w)"

definition row_rB :: "config \<Rightarrow> npfloat \<Rightarrow> npfloat" where
  "row_rB cfg w = rB_of cfg (row_Nusselt cfg w)"

definition row_hLW :: "config \<Rightarrow> npfloat \<Rightarrow> npfloat" where
  "row_hLW cfg tf = hLW_of cfg (fahrenheit_to_celsius tf)"

definition row_hH :: "config \<Rightarrow> npfloat \<Rightarrow> npfloat" where
  "row_hH cfg w = hH_of cfg (row_rB cfg w)"

definition row_Slope_Pa_K :: "npfloat \<Rightarrow> npfloat" where
  "row_Slope_Pa_K tf = Slope_Pa_K_of (row_Slope_kPa tf)"

definition row_hET :: "config \<Rightarrow> real \<Rightarrow> npfloat \<Rightarrow> npfloat \<Rightarrow> npfloat" where
  "row_hET cfg rs tf w = hET_of cfg rs (row_Slope_Pa_K tf) (row_rB cfg w)"

definition row_Leaf_Heat_Transfer_Coefficient ::
  "config \<Rightarrow> real \<Rightarrow> npfloat \<Rightarrow> npfloat \<Rightarrow> npfloat" where
  "row_Leaf_Heat_Transfer_Coefficient cfg rs tf w =
     Leaf_Heat_Transfer_Coefficient_of (row_hLW cfg tf) (row_hH cfg w) (row_hET cfg rs tf w)"

definition row_Rhe :: "config \<Rightarrow> real \<Rightarrow> npfloat \<Rightarrow> npfloat \<Rightarrow> npfloat \<Rightarrow> npfloat" where
  "row_Rhe cfg rs tf df w =
     Rhe_of cfg (row_Leaf_Heat_Transfer_Coefficient cfg rs tf w)
       (fahrenheit_to_celsius tf) (fahrenheit_to_celsius df)"

definition row_condensation_g_s ::
  "config \<Rightarrow> real \<Rightarrow> npfloat \<Rightarrow> npfloat \<Rightarrow> npfloat \<Rightarrow> npfloat" where
  "row_condensation_g_s cfg rs tf df w = condensation_g_s_of cfg (row_Rhe cfg rs tf df w)"

definition row_condensation_mm ::
  "config \<Rightarrow> real \<Rightarrow> npfloat \<Rightarrow> npfloat \<Rightarrow> npfloat \<Rightarrow> npfloat" where
  "row_condensation_mm cfg rs tf df w =
     DPD_constraint cfg (row_DPD tf df)
       (condensation_mm_of cfg (row_condensation_g_s cfg rs tf df w))"

definition row_Evaporation ::
  "config \<Rightarrow> npfloat \<Rightarrow> real \<Rightarrow> npfloat \<Rightarrow> npfloat \<Rightarrow> npfloat \<Rightarrow> npfloat" where
  "row_Evaporation cfg ratio k tf rh w = Evaporation_of (row_E cfg ratio k tf rh w)"

definition row_wetness ::
  "config \<Rightarrow> real \<Rightarrow> npfloat \<Rightarrow> real \<Rightarrow>
   npfloat \<Rightarrow> npfloat \<Rightarrow> npfloat \<Rightarrow> npfloat \<Rightarrow> npfloat \<Rightarrow> npfloat" where
  "row_wetness cfg rs ratio k tf df rh w p =
     no_negative
       (leaf_wetness_row (row_condensation_mm cfg rs tf df w) (Rain_Interception_of p)
          (row_Evaporation cfg ratio k tf rh w) tf)"

text \<open>The columns the pipeline assigns, with their cells.\<close>

definition derived_columns ::
  "config \<Rightarrow> real \<Rightarrow> npfloat \<Rightarrow> real \<Rightarrow>
   series \<Rightarrow> series \<Rightarrow> series \<Rightarrow> series \<Rightarrow> series \<Rightarrow> (string \<rightharpoonup> series)" where
  "derived_columns cfg rs ratio k tf df rh w p =
     Map.empty
       (''AIR_TEMP_C'' \<mapsto> (\<lambda>i. fahrenheit_to_celsius (tf i)),
        ''DEWPOINT_C'' \<mapsto> (\<lambda>i. fahrenheit_to_celsius (df i)),
        ''DPD'' \<mapsto> (\<lambda>i. row_DPD (tf i) (df i)),
        ''SVP'' \<mapsto> (\<lambda>i. row_SVP (tf i)),
        ''Slope_kPa'' \<mapsto> (\<lambda>i. row_Slope_kPa (tf i)),
        ''Slope_mbar'' \<mapsto> (\<lambda>i. row_Slope_mbar (tf i)),
        ''AVP'' \<mapsto> (\<lambda>i. row_AVP (tf i) (rh i)),
        ''Uz'' \<mapsto> (\<lambda>i. Uz_of (w i)),
        ''Uc'' \<mapsto> (\<lambda>i. row_Uc ratio k (w i)),
        ''Transfer_Coefficient (cm min^-1)'' \<mapsto>
          (\<lambda>i. row_Transfer_Coefficient cfg ratio k (w i)),
        ''Ep'' \<mapsto> (\<lambda>i. row_Ep cfg ratio k (tf i) (rh i) (w i)),
        ''E (cm/min)'' \<mapsto> (\<lambda>i. row_E cfg ratio k (tf i) (rh i) (w i)),
        ''Wind Speed (m/s)'' \<mapsto> (\<lambda>i. Wind_Speed_ms_of (w i)),
        ''Reynolds Number'' \<mapsto> (\<lambda>i. row_Reynolds cfg (w i)),
        ''Nusselt Number'' \<mapsto> (\<lambda>i. row_Nusselt cfg (w i)),
        ''rB (s/m)'' \<mapsto> (\<lambda>i. row_rB cfg (w i)),
        ''hLW'' \<mapsto> (\<lambda>i. row_hLW cfg (tf i)),
        ''hH'' \<mapsto> (\<lambda>i. row_hH cfg (w i)),
        ''Slope_Pa_K'' \<mapsto> (\<lambda>i. row_Slope_Pa_K (tf i)),
        ''hET'' \<mapsto> (\<lambda>i. row_hET cfg rs (tf i) (w i)),
        ''Leaf Heat Transfer Coefficient (W/m^2/K)'' \<mapsto>
          (\<lambda>i. row_Leaf_Heat_Transfer_Coefficient cfg rs (tf i) (w i)),
        ''Rhe (J/s)'' \<mapsto> (\<lambda>i. row_Rhe cfg rs (tf i) (df i) (w i)),
        ''Potential condensation of dew (g/s)'' \<mapsto>
          (\<lambda>i. row_condensation_g_s cfg rs (tf i) (df i) (w i)),
        ''Potential condensation of dew (mm)'' \<mapsto>
          (\<lambda>i. row_condensation_mm cfg rs (tf i) (df i) (w i)),
        ''Rain Interception (mm)'' \<mapsto> (\<lambda>i. Rain_Interception_of (p i)),
        ''Evaporation (mm)'' \<mapsto> (\<lambda>i. row_Evaporation cfg ratio k (tf i) (rh i) (w i)),
        ''Estimated Leaf Wetness (mm)'' \<mapsto>
          (\<lambda>i. row_wetness cfg rs ratio k (tf i) (df i) (rh i) (w i) (p i)))"

text \<open>The DataFrame as the pipeline leaves it.\<close>

definition derived_frame ::
  "config \<Rightarrow> real \<Rightarrow> npfloat \<Rightarrow> real \<Rightarrow>
   series \<Rightarrow> series \<Rightarrow> series \<Rightarrow> series \<Rightarrow> series \<Rightarrow> frame \<Rightarrow> frame" where
  "derived_frame cfg rs ratio k tf df rh w p data =
     data\<lparr>columns := columns data ++ derived_columns cfg rs ratio k tf df rh w p\<rparr>"

text \<open>The record \<open>to_dict\<close> builds for one row.\<close>

definition row_record ::
  "config \<Rightarrow> real \<Rightarrow> npfloat \<Rightarrow> real \<Rightarrow>
   npfloat \<Rightarrow> npfloat \<Rightarrow> npfloat \<Rightarrow> npfloat \<Rightarrow> npfloat \<Rightarrow> (string \<times> npfloat) list" where
  "row_record cfg rs ratio k tf df rh w p =
    [(''AIR_TEMP_F'', tf), (''DEWPOINT_F'', df), (''WIND_SPEED_2M_MPH'', w),
     (''RELATIVE_HUMIDITY_%'', rh),
     (''Potential condensation of dew (mm)'', row_condensation_mm cfg rs tf df w),
     (''Estimated Leaf Wetness (mm)'', row_wetness cfg rs ratio k tf df rh w p)]"

subsection \<open>Notions used in the statements\<close>

text \<open>
  The raw columns in the order the source first reads them (lines 91, 92, 103, 106 and
  160), those of them that are published again, and the columns the pipeline assigns, in
  the order of their first assignment.
\<close>

definition raw_fields :: "string list" where
  "raw_fields =
    [''AIR_TEMP_F'', ''DEWPOINT_F'', ''RELATIVE_HUMIDITY_%'', ''WIND_SPEED_2M_MPH'',
     ''PRECIP_INCHES'']"

definition echoed :: "string list" where
  "echoed = [''AIR_TEMP_F'', ''DEWPOINT_F'', ''WIND_SPEED_2M_MPH'', ''RELATIVE_HUMIDITY_%'']"

definition derived_fields :: "string list" where
  "derived_fields =
    [''AIR_TEMP_C'', ''DEWPOINT_C'', ''DPD'', ''SVP'', ''Slope_kPa'', ''Slope_mbar'', ''AVP'',
     ''Uz'', ''Uc'', ''Transfer_Coefficient (cm min^-1)'', ''Ep'', ''E (cm/min)'',
     ''Wind Speed (m/s)'', ''Reynolds Number'', ''Nusselt Number'', ''rB (s/m)'', ''hLW'',
     ''hH'', ''Slope_Pa_K'', ''hET'', ''Leaf Heat Transfer Coefficient (W/m^2/K)'',
     ''Rhe (J/s)'', ''Potential condensation of dew (g/s)'',
     ''Potential condensation of dew (mm)'', ''Rain Interception (mm)'',
     ''Evaporation (mm)'', ''Estimated Leaf Wetness (mm)'']"

text \<open>The first raw column that a table lacks.\<close>

definition first_missing :: "frame \<Rightarrow> string option" where
  "first_missing data = find (\<lambda>k. columns data k = None) raw_fields"

text \<open>A stage that leaves every column outside \<open>ks\<close> as it finds it.\<close>

definition writes_only :: "string list \<Rightarrow> (frame \<Rightarrow> error + frame) \<Rightarrow> bool" where
  "writes_only ks s =
     (\<forall>data d k. s data = Inr d \<longrightarrow> k \<notin> set ks \<longrightarrow> columns d k = columns data k)"

text \<open>The table whose row \<open>i\<close> is row \<open>\<pi> i\<close> of \<open>data\<close>.\<close>

definition permute_rows :: "(nat \<Rightarrow> nat) \<Rightarrow> frame \<Rightarrow> frame" where
  "permute_rows \<pi> data = data\<lparr>columns := map_option (\<lambda>s. s \<circ> \<pi>) \<circ> columns data\<rparr>"

definition swap01 :: "nat \<Rightarrow> nat" where
  "swap01 i = (if i = 0 then 1 else if i = 1 then 0 else i)"

text \<open>
  A cell that is a finite number between two bounds, a cell that is a positive number up
  to a bound, and a cell that is a number from a bound on or the positive infinity.
\<close>

definition in_range :: "real \<Rightarrow> real \<Rightarrow> npfloat \<Rightarrow> bool" where
  "in_range lo hi x = (\<exists>r. x = Fin r \<and> lo \<le> r \<and> r \<le> hi)"

definition pos_upto :: "real \<Rightarrow> npfloat \<Rightarrow> bool" where
  "pos_upto hi x = (\<exists>r. x = Fin r \<and> 0 < r \<and> r \<le> hi)"

definition at_least :: "real \<Rightarrow> npfloat \<Rightarrow> bool" where
  "at_least lo x = (x = PInf \<or> (\<exists>r. x = Fin r \<and> lo \<le> r))"

text \<open>The value of \<open>rS\<close> for the configuration of the source.\<close>

definition rS_default :: real where
  "rS_default =
     4 * (0.000025 + (pi * 0.00000623) / 8)
       / (pi * 196232004 * (0.00000623 ^ 2) * 0.0000212)"

subsection \<open>Tables used as examples\<close>

text \<open>A column from the list of its cells, and a table from its five raw columns.\<close>

definition series_of :: "npfloat list \<Rightarrow> series" where
  "series_of xs i = (if i < length xs then xs ! i else NaN)"

definition table ::
  "npfloat list \<Rightarrow> npfloat list \<Rightarrow> npfloat list \<Rightarrow> npfloat list \<Rightarrow> npfloat list \<Rightarrow> frame" where
  "table tf df w rh p =
     \<lparr>nrows = length tf,
      columns = [''AIR_TEMP_F'' \<mapsto> series_of tf, ''DEWPOINT_F'' \<mapsto> series_of df,
                 ''WIND_SPEED_2M_MPH'' \<mapsto> series_of w, ''RELATIVE_HUMIDITY_%'' \<mapsto> series_of rh,
                 ''PRECIP_INCHES'' \<mapsto> series_of p]\<rparr>"

text \<open>A mild row and a freezing row with rain and no wind.\<close>

definition example_frame :: frame where
  "example_frame =
     table [Fin 70, Fin 30] [Fin 50, Fin 28] [Fin 5, Fin 0] [Fin 60, Fin 90] [Fin 0, Fin 0.1]"



text \<open>A calm, humid row whose dew point is above its air temperature.\<close>

definition dew_frame :: frame where
  "dew_frame = table [Fin 50] [Fin 60] [Fin 0] [Fin 90] [Fin 0]"

text \<open>A row at -400 degrees F, where the exponential of the vapour pressure overflows.\<close>

definition cold_frame :: frame where
  "cold_frame = table [Fin (- 400)] [Fin (- 400)] [Fin 5] [Fin 50] [Fin 0]"

section \<open>Properties\<close>

subsection \<open>What a run computes\<close>

lemma bind_err_Inr [simp]: "bind_err (Inr x) f = f x"
  by (simp add: bind_err_def)

lemma bind_err_Inl [simp]: "bind_err (Inl e) f = Inl e"
  by (simp add: bind_err_def)

lemma getitem_setitem:
  "getitem (setitem data k s) k' = (if k' = k then Inr s else getitem data k')"
  by (simp add: getitem_def setitem_def)

lemma getitem_Some: "columns data k = Some s \<Longrightarrow> getitem data k = Inr s"
  by (simp add: getitem_def)

lemma getitem_None: "columns data k = None \<Longrightarrow> getitem data k = Inl (KeyError k)"
  by (simp add: getitem_def)

lemmas assign_defs = assign1_def assign2_def assign3_def assign4_def assign_Uc_def

lemmas row_defs = row_DPD_def row_SVP_def row_Slope_kPa_def row_Slope_mbar_def row_AVP_def
  row_Uc_def row_Transfer_Coefficient_def row_Ep_def row_E_def row_Reynolds_def
  row_Nusselt_def row_rB_def row_hLW_def row_hH_def row_Slope_Pa_K_def row_hET_def
  row_Leaf_Heat_Transfer_Coefficient_def row_Rhe_def row_condensation_g_s_def
  row_condensation_mm_def row_Evaporation_def row_wetness_def

lemma run_stages_raw:
  assumes "columns data ''AIR_TEMP_F'' = Some tf"
      and "columns data ''DEWPOINT_F'' = Some df"
      and "columns data ''RELATIVE_HUMIDITY_%'' = Some rh"
      and "columns data ''WIND_SPEED_2M_MPH'' = Some w"
      and "columns data ''PRECIP_INCHES'' = Some p"
      and "log_profile_ratio cfg = Inr ratio"
      and "profile_correction cfg = Inr k"
  shows "run_stages (stages cfg rs) data = Inr (derived_frame cfg rs ratio k tf df rh w p data)"
  using assms
  apply (simp add: stages_def assign_defs getitem_setitem getitem_Some)
  apply (simp add: setitem_def derived_frame_def derived_columns_def row_defs)
  done

lemma nrows_derived_frame [simp]:
  "nrows (derived_frame cfg rs ratio k tf df rh w p data) = nrows data"
  by (simp add: derived_frame_def derived_columns_def)

lemma select_published:
  assumes "columns data ''AIR_TEMP_F'' = Some tf"
      and "columns data ''DEWPOINT_F'' = Some df"
      and "columns data ''RELATIVE_HUMIDITY_%'' = Some rh"
      and "columns data ''WIND_SPEED_2M_MPH'' = Some w"
  shows "bind_err (select_columns (derived_frame cfg rs ratio k tf df rh w p data) published)
           (\<lambda>cs. Inr (to_dict_records n cs)) =
         Inr (map (\<lambda>i. row_record cfg rs ratio k (tf i) (df i) (rh i) (w i) (p i)) [0..<n])"
  using assms
  by (simp add: published_def getitem_def derived_frame_def derived_columns_def
      to_dict_records_def row_record_def)

lemma estimate_raw:
  assumes "rS cfg = Inr rs"
      and "columns data ''AIR_TEMP_F'' = Some tf"
      and "columns data ''DEWPOINT_F'' = Some df"
      and "columns data ''RELATIVE_HUMIDITY_%'' = Some rh"
      and "columns data ''WIND_SPEED_2M_MPH'' = Some w"
      and "log_profile_ratio cfg = Inr ratio"
      and "profile_correction cfg = Inr k"
      and "columns data ''PRECIP_INCHES'' = Some p"
  shows "estimate_leaf_wetness data cfg =
         Inr (derived_frame cfg rs ratio k tf df rh w p data,
              map (\<lambda>i. row_record cfg rs ratio k (tf i) (df i) (rh i) (w i) (p i))
                [0..<nrows data])"
proof -
  have run: "run_stages (stages cfg rs) data = Inr (derived_frame cfg rs ratio k tf df rh w p data)"
    using assms by (intro run_stages_raw)
  have sel: "bind_err (select_columns (derived_frame cfg rs ratio k tf df rh w p data) published)
           (\<lambda>cs. Inr (derived_frame cfg rs ratio k tf df rh w p data, to_dict_records (nrows data) cs)) =
         Inr (derived_frame cfg rs ratio k tf df rh w p data, map (\<lambda>i. row_record cfg rs ratio k (tf i) (df i) (rh i) (w i) (p i)) [0..<nrows data])"
    using select_published [OF assms(2,3,4,5), of cfg rs ratio k p "nrows data"]
    by (auto simp: bind_err_def split: sum.splits)
  show ?thesis
    unfolding estimate_leaf_wetness_def using assms(1) run sel by simp
qed

text \<open>
  Every way a run can end: the exceptions in the order the source reaches them, then the
  result.
\<close>

lemma estimate_cases:
  "estimate_leaf_wetness data cfg =
    (case rS cfg of Inl e \<Rightarrow> Inl e | Inr rs \<Rightarrow>
     case columns data ''AIR_TEMP_F'' of None \<Rightarrow> Inl (KeyError ''AIR_TEMP_F'') | Some tf \<Rightarrow>
     case columns data ''DEWPOINT_F'' of None \<Rightarrow> Inl (KeyError ''DEWPOINT_F'') | Some df \<Rightarrow>
     case columns data ''RELATIVE_HUMIDITY_%'' of
       None \<Rightarrow> Inl (KeyError ''RELATIVE_HUMIDITY_%'') | Some rh \<Rightarrow>
     case columns data ''WIND_SPEED_2M_MPH'' of
       None \<Rightarrow> Inl (KeyError ''WIND_SPEED_2M_MPH'') | Some w \<Rightarrow>
     case log_profile_ratio cfg of Inl e \<Rightarrow> Inl e | Inr ratio \<Rightarrow>
     case profile_correction cfg of Inl e \<Rightarrow> Inl e | Inr k \<Rightarrow>
     case columns data ''PRECIP_INCHES'' of None \<Rightarrow> Inl (KeyError ''PRECIP_INCHES'') | Some p \<Rightarrow>
       Inr (derived_frame cfg rs ratio k tf df rh w p data,
            map (\<lambda>i. row_record cfg rs ratio k (tf i) (df i) (rh i) (w i) (p i))
              [0..<nrows data]))"
proof (cases "rS cfg")
  case (Inl e)
  then show ?thesis by (simp add: estimate_leaf_wetness_def)
next
  case rs: (Inr rs)
  show ?thesis
  proof (cases "columns data ''AIR_TEMP_F''")
    case None
    then show ?thesis using rs
      by (simp add: estimate_leaf_wetness_def stages_def assign_defs getitem_None)
  next
    case tf: (Some tf)
    show ?thesis
    proof (cases "columns data ''DEWPOINT_F''")
      case None
      then show ?thesis using rs tf
        by (simp add: estimate_leaf_wetness_def stages_def assign_defs getitem_None
            getitem_Some getitem_setitem)
    next
      case df: (Some df)
      show ?thesis
      proof (cases "columns data ''RELATIVE_HUMIDITY_%''")
        case None
        then show ?thesis using rs tf df
          by (simp add: estimate_leaf_wetness_def stages_def assign_defs getitem_None
              getitem_Some getitem_setitem)
      next
        case rh: (Some rh)
        show ?thesis
        proof (cases "columns data ''WIND_SPEED_2M_MPH''")
          case None
          then show ?thesis using rs tf df rh
            by (simp add: estimate_leaf_wetness_def stages_def assign_defs getitem_None
                getitem_Some getitem_setitem)
        next
          case w: (Some w)
          show ?thesis
          proof (cases "log_profile_ratio cfg")
            case (Inl e)
            then show ?thesis using rs tf df rh w
              by (simp add: estimate_leaf_wetness_def stages_def assign_defs
                  getitem_Some getitem_setitem)
          next
            case ratio: (Inr ratio)
            show ?thesis
            proof (cases "profile_correction cfg")
              case (Inl e)
              then show ?thesis using rs tf df rh w ratio
                by (simp add: estimate_leaf_wetness_def stages_def assign_defs
                    getitem_Some getitem_setitem)
            next
              case k: (Inr k)
              show ?thesis
              proof (cases "columns data ''PRECIP_INCHES''")
                case None
                then show ?thesis using rs tf df rh w ratio k
                  by (simp add: estimate_leaf_wetness_def stages_def assign_defs getitem_None
                      getitem_Some getitem_setitem)
              next
                case (Some p)
                then show ?thesis
                  using estimate_raw [OF rs tf df rh w ratio k Some] rs tf df rh w ratio k
                  by simp
              qed
            qed
          qed
        qed
      qed
    qed
  qed
qed

lemma estimate_Inr:
  assumes "estimate_leaf_wetness data cfg = Inr (data', res)"
  shows "\<exists>rs tf df rh w ratio k p.
     rS cfg = Inr rs \<and>
     columns data ''AIR_TEMP_F'' = Some tf \<and>
     columns data ''DEWPOINT_F'' = Some df \<and>
     columns data ''RELATIVE_HUMIDITY_%'' = Some rh \<and>
     columns data ''WIND_SPEED_2M_MPH'' = Some w \<and>
     log_profile_ratio cfg = Inr ratio \<and>
     profile_correction cfg = Inr k \<and>
     columns data ''PRECIP_INCHES'' = Some p \<and>
     data' = derived_frame cfg rs ratio k tf df rh w p data \<and>
     res = map (\<lambda>i. row_record cfg rs ratio k (tf i) (df i) (rh i) (w i) (p i))
             [0..<nrows data]"
  using assms unfolding estimate_cases
  by (auto split: sum.splits option.splits)

subsection \<open>The configuration of the source\<close>

lemma float_overflow_big: "10 ^ 30 < float_overflow"
  by (simp add: float_overflow_def)

lemma rnd_Fin:
  "lo \<le> r \<Longrightarrow> r \<le> hi \<Longrightarrow> - (10 ^ 30) \<le> lo \<Longrightarrow> hi \<le> 10 ^ 30 \<Longrightarrow> rnd r = Fin r"
  using float_overflow_big by (simp add: rnd_def)

lemma rS_default: "rS default_config = Inr rS_default"
  by (simp add: rS_def default_config_def Let_def rS_default_def)

lemma rS_default_pos: "0 < rS_default"
  unfolding rS_default_def by (intro divide_pos_pos mult_pos_pos add_pos_pos) simp_all

lemma rS_default_le: "rS_default \<le> 1000"
proof -
  have n: "4 * (0.000025 + (pi * 0.00000623) / 8) \<le> (2::real) / 10 ^ 4"
    using pi_less_4 by simp
  have "(2::real) / 10 ^ 7 \<le> 2 * (196232004 * (0.00000623 ^ 2) * 0.0000212)"
    by (simp add: power2_eq_square)
  also have "\<dots> \<le> pi * (196232004 * (0.00000623 ^ 2) * 0.0000212)"
    using pi_ge_two by (intro mult_right_mono) simp_all
  finally have d: "(2::real) / 10 ^ 7 \<le> pi * 196232004 * (0.00000623 ^ 2) * 0.0000212"
    by (simp only: mult.assoc)
  have "rS_default \<le> (2 / 10 ^ 4) / (2 / 10 ^ 7)"
    unfolding rS_default_def using n d by (intro frac_le) simp_all
  then show ?thesis by simp
qed

lemma profile_correction_default:
  "profile_correction default_config = Inr (1 / 0.0315 ^ 2)"
  by (simp add: profile_correction_def default_config_def Let_def)

lemma log_profile_ratio_default:
  "log_profile_ratio default_config = Inr (Fin (ln 2.55 / ln 5.05))"
proof -
  have a: "0 < ln (2.55::real)" by simp
  have b: "ln (2.55::real) < ln 5.05" by simp
  have "0 \<le> ln (2.55::real) / ln 5.05" "ln (2.55::real) / ln 5.05 \<le> 1"
    using a b by simp_all
  then have "rnd (ln 2.55 / ln 5.05) = Fin (ln 2.55 / ln 5.05)"
    by (intro rnd_Fin [of 0 _ 1]) simp_all
  then show ?thesis
    using a b by (simp add: log_profile_ratio_def default_config_def Zo_def D_plane_def np_log_def)
qed

text \<open>With all five raw columns present, the configuration of the source never raises.\<close>

lemma estimate_default:
  assumes "columns data ''AIR_TEMP_F'' = Some tf"
      and "columns data ''DEWPOINT_F'' = Some df"
      and "columns data ''RELATIVE_HUMIDITY_%'' = Some rh"
      and "columns data ''WIND_SPEED_2M_MPH'' = Some w"
      and "columns data ''PRECIP_INCHES'' = Some p"
  shows "estimate_leaf_wetness data default_config =
         Inr (derived_frame default_config rS_default (Fin (ln 2.55 / ln 5.05)) (1 / 0.0315 ^ 2)
                tf df rh w p data,
              map (\<lambda>i. row_record default_config rS_default (Fin (ln 2.55 / ln 5.05))
                          (1 / 0.0315 ^ 2) (tf i) (df i) (rh i) (w i) (p i))
                [0..<nrows data])"
  using assms
  by (intro estimate_raw rS_default log_profile_ratio_default profile_correction_default)

lemma columns_table:
  "columns (table tf df w rh p) ''AIR_TEMP_F'' = Some (series_of tf)"
  "columns (table tf df w rh p) ''DEWPOINT_F'' = Some (series_of df)"
  "columns (table tf df w rh p) ''WIND_SPEED_2M_MPH'' = Some (series_of w)"
  "columns (table tf df w rh p) ''RELATIVE_HUMIDITY_%'' = Some (series_of rh)"
  "columns (table tf df w rh p) ''PRECIP_INCHES'' = Some (series_of p)"
  "nrows (table tf df w rh p) = length tf"
  by (simp_all add: table_def)

lemma estimate_table:
  "estimate_leaf_wetness (table tf df w rh p) default_config =
     Inr (derived_frame default_config rS_default (Fin (ln 2.55 / ln 5.05)) (1 / 0.0315 ^ 2)
            (series_of tf) (series_of df) (series_of rh) (series_of w) (series_of p)
            (table tf df w rh p),
          map (\<lambda>i. row_record default_config rS_default (Fin (ln 2.55 / ln 5.05))
                      (1 / 0.0315 ^ 2) (series_of tf i) (series_of df i) (series_of rh i)
                      (series_of w i) (series_of p i))
            [0..<length tf])"
  using estimate_default [of "table tf df w rh p" "series_of tf" "series_of df"
      "series_of rh" "series_of w" "series_of p"]
  by (simp add: columns_table)

subsection \<open>The wetness formula\<close>




subsection \<open>The dew point depression cutoff\<close>

lemma fahrenheit_to_celsius_Fin:
  assumes "- (10 ^ 6) \<le> t" and "t \<le> 10 ^ 6"
  shows "fahrenheit_to_celsius (Fin t) = Fin ((t - 32) * 5 / 9)"
proof -
  have a: "rnd (t - 32) = Fin (t - 32)"
    using assms by (intro rnd_Fin [of "- (10 ^ 6) - 32" _ "10 ^ 6"]) simp_all
  have b: "rnd ((t - 32) * 5) = Fin ((t - 32) * 5)"
    using assms by (intro rnd_Fin [of "(- (10 ^ 6) - 32) * 5" _ "10 ^ 6 * 5"]) simp_all
  have c: "rnd ((t - 32) * 5 / 9) = Fin ((t - 32) * 5 / 9)"
    using assms by (intro rnd_Fin [of "(- (10 ^ 6) - 32) * 5 / 9" _ "10 ^ 6 * 5 / 9"]) simp_all
  have "fsub (Fin t) (Fin 32) = Fin (t - 32)"
    using a by (simp add: fsub_def)
  moreover have "fmul (Fin (t - 32)) (Fin 5) = Fin ((t - 32) * 5)"
    using b by simp
  moreover have "fdiv (Fin ((t - 32) * 5)) (Fin 9) = Fin ((t - 32) * 5 / 9)"
    using c by simp
  ultimately show ?thesis
    by (simp only: fahrenheit_to_celsius_def)
qed



subsection \<open>Rain interception\<close>

text \<open>
  C3. For every row of a run that returns, the rain interception term (the column that
  enters the wetness formula) is 0.6 when the precipitation is above 0, whatever its
  amount, and 0 when the precipitation is 0.
\<close>

theorem rain_interception_binary:
  assumes "estimate_leaf_wetness data cfg = Inr (data', res)" and "i < nrows data"
  shows "\<exists>p rain.
     columns data ''PRECIP_INCHES'' = Some p \<and>
     columns data' ''Rain Interception (mm)'' = Some rain \<and>
     rain i = (if fgt (p i) (Fin 0) then Fin 0.6 else Fin 0) \<and>
     (\<forall>x. p i = Fin x \<and> 0 < x \<longrightarrow> rain i = Fin 0.6) \<and>
     (p i = Fin 0 \<longrightarrow> rain i = Fin 0)"
proof -
  from estimate_Inr [OF assms(1)] obtain rs tf df rh w ratio k p where
    p: "columns data ''PRECIP_INCHES'' = Some p" and
    d: "data' = derived_frame cfg rs ratio k tf df rh w p data"
    by blast
  have r: "columns data' ''Rain Interception (mm)'' = Some (\<lambda>i. Rain_Interception_of (p i))"
    by (simp add: d derived_frame_def derived_columns_def)
  have r1: "Rain_Interception_of (p i) = (if fgt (p i) (Fin 0) then Fin 0.6 else Fin 0)"
    by (simp add: Rain_Interception_of_def)
  have r2: "\<forall>x. p i = Fin x \<and> 0 < x \<longrightarrow> Rain_Interception_of (p i) = Fin 0.6"
    by (simp add: Rain_Interception_of_def fgt_def)
  have r3: "p i = Fin 0 \<longrightarrow> Rain_Interception_of (p i) = Fin 0"
    by (simp add: Rain_Interception_of_def fgt_def)
  show ?thesis
    by (intro exI conjI) (rule p r r1 r2 r3)+
qed

text \<open>The example table: no rain in row 0, a tenth of an inch in row 1.\<close>

theorem rain_interception_binary_witness:
  "\<exists>data' res rain. estimate_leaf_wetness example_frame default_config = Inr (data', res) \<and>
     1 < nrows example_frame \<and>
     columns data' ''Rain Interception (mm)'' = Some rain \<and>
     rain 0 = Fin 0 \<and> rain 1 = Fin 0.6"
proof -
  obtain data' res where
    est: "estimate_leaf_wetness example_frame default_config = Inr (data', res)"
    unfolding example_frame_def estimate_table by blast
  have n: "1 < nrows example_frame" "0 < nrows example_frame"
    by (simp_all add: example_frame_def columns_table)
  from rain_interception_binary [OF est n(1)] obtain p rain where
    p: "columns example_frame ''PRECIP_INCHES'' = Some p" and
    r: "columns data' ''Rain Interception (mm)'' = Some rain" and
    r1: "\<forall>x. p 1 = Fin x \<and> 0 < x \<longrightarrow> rain 1 = Fin 0.6"
    by blast
  from rain_interception_binary [OF est n(2)] p r have r0: "p 0 = Fin 0 \<longrightarrow> rain 0 = Fin 0"
    by auto
  have p0: "p 0 = Fin 0" and p1: "p 1 = Fin 0.1"
    using p by (auto simp: example_frame_def columns_table series_of_def)
  from r1 have "p 1 = Fin 0.1 \<and> (0::real) < 0.1 \<longrightarrow> rain 1 = Fin 0.6"
    by (rule spec)
  with p1 have "rain 1 = Fin 0.6" by simp
  moreover from r0 p0 have "rain 0 = Fin 0" by simp
  ultimately show ?thesis using est n r by blast
qed

subsection \<open>The raw columns are never written\<close>

lemma assign_writes_only:
  "dst \<in> set ks \<Longrightarrow> writes_only ks (assign1 dst a f1)"
  "dst \<in> set ks \<Longrightarrow> writes_only ks (assign2 dst a b f2)"
  "dst \<in> set ks \<Longrightarrow> writes_only ks (assign3 dst a b c f3)"
  "dst \<in> set ks \<Longrightarrow> writes_only ks (assign4 dst a b c e f4)"
  "''Uc'' \<in> set ks \<Longrightarrow> writes_only ks (assign_Uc cfg)"
  by (auto simp: writes_only_def assign_defs setitem_def bind_err_def split: sum.splits)

lemma stages_write_derived: "list_all (writes_only derived_fields) (stages cfg rs)"
  unfolding stages_def list.pred_inject
  by (intro conjI assign_writes_only TrueI) (simp_all add: derived_fields_def)

lemma run_stages_keeps:
  assumes "list_all (writes_only ks) ss" and "run_stages ss data = Inr d" and "k \<notin> set ks"
  shows "columns d k = columns data k"
  using assms
proof (induction ss arbitrary: data)
  case Nil
  then show ?case by simp
next
  case (Cons s ss)
  from Cons.prems(2) obtain d1 where s: "s data = Inr d1" and r: "run_stages ss d1 = Inr d"
    by (auto simp: bind_err_def split: sum.splits)
  have "columns d k = columns d1 k"
    using Cons.IH [OF _ r Cons.prems(3)] Cons.prems(1) by simp
  moreover have "columns d1 k = columns data k"
    using Cons.prems(1,3) s by (simp add: writes_only_def)
  ultimately show ?case by simp
qed

lemma raw_not_derived: "k \<in> set raw_fields \<Longrightarrow> k \<notin> set derived_fields"
  by (auto simp: raw_fields_def derived_fields_def)

lemma prefix_keeps:
  assumes "run_stages (take n (stages cfg rs)) data = Inr d" and "k \<notin> set derived_fields"
  shows "columns d k = columns data k"
proof (rule run_stages_keeps [OF _ assms])
  show "list_all (writes_only derived_fields) (take n (stages cfg rs))"
    using stages_write_derived [of cfg rs] set_take_subset [of n "stages cfg rs"]
    by (auto simp: list_all_iff)
qed

text \<open>
  C10. No assignment of the pipeline writes a raw column: every stage writes one of
  the derived columns only, and none of those is a raw column; so after any number of
  stages, and at the end, the five raw columns are the input's. Every record of the
  result echoes the input cell of its row for AIR\_TEMP\_F, DEWPOINT\_F,
  WIND\_SPEED\_2M\_MPH and RELATIVE\_HUMIDITY\_\%.
\<close>

theorem raw_fields_frame:
  assumes "estimate_leaf_wetness data cfg = Inr (data', res)"
  shows "(\<forall>k \<in> set raw_fields. columns data' k = columns data k) \<and>
         (\<forall>k \<in> set raw_fields. \<forall>n rs d.
            run_stages (take n (stages cfg rs)) data = Inr d \<longrightarrow> columns d k = columns data k) \<and>
         (\<forall>k \<in> set echoed. \<forall>i < nrows data.
            \<exists>s. columns data k = Some s \<and> map_of (res ! i) k = Some (s i)) \<and>
         length res = nrows data \<and> nrows data' = nrows data \<and>
         (\<forall>rs. list_all (writes_only derived_fields) (stages cfg rs)) \<and>
         set raw_fields \<inter> set derived_fields = {}"
proof -
  from estimate_Inr [OF assms(1)] obtain rs tf df rh w ratio k p where
    c: "columns data ''AIR_TEMP_F'' = Some tf" "columns data ''DEWPOINT_F'' = Some df"
       "columns data ''RELATIVE_HUMIDITY_%'' = Some rh"
       "columns data ''WIND_SPEED_2M_MPH'' = Some w" and
    d: "data' = derived_frame cfg rs ratio k tf df rh w p data" and
    r: "res = map (\<lambda>i. row_record cfg rs ratio k (tf i) (df i) (rh i) (w i) (p i))
             [0..<nrows data]"
    by blast
  have 1: "\<forall>k \<in> set raw_fields. columns data' k = columns data k"
    by (simp add: d derived_frame_def derived_columns_def raw_fields_def)
  have 2: "\<forall>k \<in> set raw_fields. \<forall>n rs d.
            run_stages (take n (stages cfg rs)) data = Inr d \<longrightarrow> columns d k = columns data k"
    using prefix_keeps raw_not_derived by blast
  have 3: "\<forall>k \<in> set echoed. \<forall>i < nrows data.
            \<exists>s. columns data k = Some s \<and> map_of (res ! i) k = Some (s i)"
    using c by (simp add: echoed_def r row_record_def)
  have 4: "length res = nrows data" and 5: "nrows data' = nrows data"
    by (simp_all add: r d)
  have 6: "\<forall>rs. list_all (writes_only derived_fields) (stages cfg rs)"
    by (simp add: stages_write_derived)
  have 7: "set raw_fields \<inter> set derived_fields = {}"
    using raw_not_derived by blast
  show ?thesis by (intro conjI) (rule 1 2 3 4 5 6 7)+
qed

text \<open>The example table: its air temperature column is kept, and the records echo it.\<close>

theorem raw_fields_frame_witness:
  "\<exists>data' res. estimate_leaf_wetness example_frame default_config = Inr (data', res) \<and>
     columns data' ''AIR_TEMP_F'' = Some (series_of [Fin 70, Fin 30]) \<and>
     map_of (res ! 0) ''AIR_TEMP_F'' = Some (Fin 70) \<and>
     map_of (res ! 1) ''DEWPOINT_F'' = Some (Fin 28)"
proof -
  obtain data' res where
    est: "estimate_leaf_wetness example_frame default_config = Inr (data', res)"
    unfolding example_frame_def estimate_table by blast
  note f = raw_fields_frame [OF est]
  have a: "columns data' ''AIR_TEMP_F'' = Some (series_of [Fin 70, Fin 30])"
    using f by (simp add: raw_fields_def example_frame_def columns_table)
  from f have e: "\<forall>k \<in> set echoed. \<forall>i < nrows example_frame.
            \<exists>s. columns example_frame k = Some s \<and> map_of (res ! i) k = Some (s i)"
    by blast
  have b: "map_of (res ! 0) ''AIR_TEMP_F'' = Some (Fin 70)"
    using e [rule_format, of "''AIR_TEMP_F''" 0]
    by (auto simp: echoed_def example_frame_def columns_table series_of_def)
  have c: "map_of (res ! 1) ''DEWPOINT_F'' = Some (Fin 28)"
    using e [rule_format, of "''DEWPOINT_F''" 1]
    by (auto simp: echoed_def example_frame_def columns_table series_of_def)
  show ?thesis using est a b c by blast
qed

subsection \<open>Running the estimator again\<close>

lemma map_add_twice: "(m ++ n) ++ n = m ++ n"
  by (rule ext) (simp add: map_add_def split: option.splits)

lemma derived_frame_again:
  "derived_frame cfg rs ratio k tf df rh w p (derived_frame cfg rs ratio k tf df rh w p data) =
   derived_frame cfg rs ratio k tf df rh w p data"
  by (simp add: derived_frame_def map_add_twice)

text \<open>
  C7. The estimator keeps no state of its own and draws no random number: its result
  is a function of the table and the configuration. What it does change is the table it
  is given, which gains the derived columns; a second call on that same table returns
  the same records again, and leaves the table as the first call left it.
\<close>

theorem estimate_twice:
  assumes "estimate_leaf_wetness data cfg = Inr (data', res)"
  shows "estimate_leaf_wetness data' cfg = Inr (data', res)"
proof -
  from estimate_Inr [OF assms(1)] obtain rs tf df rh w ratio k p where
    s: "rS cfg = Inr rs" "log_profile_ratio cfg = Inr ratio" "profile_correction cfg = Inr k" and
    c: "columns data ''AIR_TEMP_F'' = Some tf" "columns data ''DEWPOINT_F'' = Some df"
       "columns data ''RELATIVE_HUMIDITY_%'' = Some rh"
       "columns data ''WIND_SPEED_2M_MPH'' = Some w" "columns data ''PRECIP_INCHES'' = Some p" and
    d: "data' = derived_frame cfg rs ratio k tf df rh w p data" and
    r: "res = map (\<lambda>i. row_record cfg rs ratio k (tf i) (df i) (rh i) (w i) (p i))
             [0..<nrows data]"
    by blast
  have c': "columns data' ''AIR_TEMP_F'' = Some tf" "columns data' ''DEWPOINT_F'' = Some df"
       "columns data' ''RELATIVE_HUMIDITY_%'' = Some rh"
       "columns data' ''WIND_SPEED_2M_MPH'' = Some w" "columns data' ''PRECIP_INCHES'' = Some p"
    using c by (simp_all add: d derived_frame_def derived_columns_def)
  have "estimate_leaf_wetness data' cfg =
      Inr (derived_frame cfg rs ratio k tf df rh w p data',
           map (\<lambda>i. row_record cfg rs ratio k (tf i) (df i) (rh i) (w i) (p i))
             [0..<nrows data'])"
    by (rule estimate_raw [OF s(1) c'(1,2,3,4) s(2,3) c'(5)])
  then show ?thesis
    by (simp add: d r derived_frame_again)
qed

text \<open>The example table, run twice.\<close>

theorem estimate_twice_witness:
  "\<exists>data' res. estimate_leaf_wetness example_frame default_config = Inr (data', res) \<and>
     estimate_leaf_wetness data' default_config = Inr (data', res)"
proof -
  obtain data' res where
    est: "estimate_leaf_wetness example_frame default_config = Inr (data', res)"
    unfolding example_frame_def estimate_table by blast
  with estimate_twice [OF est] show ?thesis by blast
qed

subsection \<open>Permuting the rows\<close>

lemma map_option_map_add:
  "map_option f \<circ> (m ++ n) = (map_option f \<circ> m) ++ (map_option f \<circ> n)"
  by (rule ext) (simp add: map_add_def split: option.splits)

lemma derived_columns_permute:
  "derived_columns cfg rs ratio k (tf \<circ> \<pi>) (df \<circ> \<pi>) (rh \<circ> \<pi>) (w \<circ> \<pi>) (p \<circ> \<pi>) =
   map_option (\<lambda>s. s \<circ> \<pi>) \<circ> derived_columns cfg rs ratio k tf df rh w p"
proof -
  have v: "(\<lambda>i. g (a i)) \<circ> \<pi> = (\<lambda>i. g ((a \<circ> \<pi>) i))" for g :: "npfloat \<Rightarrow> npfloat" and a
    by (simp add: comp_def)
  have v2: "(\<lambda>i. g (a i) (b i)) \<circ> \<pi> = (\<lambda>i. g ((a \<circ> \<pi>) i) ((b \<circ> \<pi>) i))"
    for g :: "npfloat \<Rightarrow> npfloat \<Rightarrow> npfloat" and a b
    by (simp add: comp_def)
  have v3: "(\<lambda>i. g (a i) (b i) (c i)) \<circ> \<pi> =
      (\<lambda>i. g ((a \<circ> \<pi>) i) ((b \<circ> \<pi>) i) ((c \<circ> \<pi>) i))"
    for g :: "npfloat \<Rightarrow> npfloat \<Rightarrow> npfloat \<Rightarrow> npfloat" and a b c
    by (simp add: comp_def)
  have v5: "(\<lambda>i. g (a i) (b i) (c i) (d i) (e i)) \<circ> \<pi> =
      (\<lambda>i. g ((a \<circ> \<pi>) i) ((b \<circ> \<pi>) i) ((c \<circ> \<pi>) i) ((d \<circ> \<pi>) i) ((e \<circ> \<pi>) i))"
    for g :: "npfloat \<Rightarrow> npfloat \<Rightarrow> npfloat \<Rightarrow> npfloat \<Rightarrow> npfloat \<Rightarrow> npfloat" and a b c d e
    by (simp add: comp_def)
  show ?thesis
    unfolding derived_columns_def
    by (simp only: map_option_o_map_upd map_option_o_empty v v2 v3 v5)
qed

lemma derived_frame_permute:
  "derived_frame cfg rs ratio k (tf \<circ> \<pi>) (df \<circ> \<pi>) (rh \<circ> \<pi>) (w \<circ> \<pi>) (p \<circ> \<pi>)
     (permute_rows \<pi> data) =
   permute_rows \<pi> (derived_frame cfg rs ratio k tf df rh w p data)"
  by (simp add: derived_frame_def derived_columns_permute permute_rows_def map_option_map_add)

lemma columns_permute_rows:
  "columns (permute_rows \<pi> data) k = map_option (\<lambda>s. s \<circ> \<pi>) (columns data k)"
  "nrows (permute_rows \<pi> data) = nrows data"
  by (simp_all add: permute_rows_def)

lemma estimate_permuted_Inr:
  assumes "estimate_leaf_wetness data cfg = Inr (data', res)"
      and "\<forall>i < nrows data. \<pi> i < nrows data"
  shows "estimate_leaf_wetness (permute_rows \<pi> data) cfg =
              Inr (permute_rows \<pi> data', map (\<lambda>i. res ! \<pi> i) [0..<nrows data])"
proof -
  from estimate_Inr [OF assms(1)] obtain rs tf df rh w ratio k p where
    s: "rS cfg = Inr rs" "log_profile_ratio cfg = Inr ratio" "profile_correction cfg = Inr k" and
    c: "columns data ''AIR_TEMP_F'' = Some tf" "columns data ''DEWPOINT_F'' = Some df"
       "columns data ''RELATIVE_HUMIDITY_%'' = Some rh"
       "columns data ''WIND_SPEED_2M_MPH'' = Some w" "columns data ''PRECIP_INCHES'' = Some p" and
    d: "data' = derived_frame cfg rs ratio k tf df rh w p data" and
    r: "res = map (\<lambda>i. row_record cfg rs ratio k (tf i) (df i) (rh i) (w i) (p i))
             [0..<nrows data]"
    by blast
  let ?d = "permute_rows \<pi> data"
  have c': "columns ?d ''AIR_TEMP_F'' = Some (tf \<circ> \<pi>)" "columns ?d ''DEWPOINT_F'' = Some (df \<circ> \<pi>)"
       "columns ?d ''RELATIVE_HUMIDITY_%'' = Some (rh \<circ> \<pi>)"
       "columns ?d ''WIND_SPEED_2M_MPH'' = Some (w \<circ> \<pi>)"
       "columns ?d ''PRECIP_INCHES'' = Some (p \<circ> \<pi>)"
    using c by (simp_all add: columns_permute_rows)
  have "estimate_leaf_wetness ?d cfg =
      Inr (derived_frame cfg rs ratio k (tf \<circ> \<pi>) (df \<circ> \<pi>) (rh \<circ> \<pi>) (w \<circ> \<pi>) (p \<circ> \<pi>) ?d,
           map (\<lambda>i. row_record cfg rs ratio k ((tf \<circ> \<pi>) i) ((df \<circ> \<pi>) i) ((rh \<circ> \<pi>) i)
                       ((w \<circ> \<pi>) i) ((p \<circ> \<pi>) i))
             [0..<nrows ?d])"
    by (rule estimate_raw [OF s(1) c'(1,2,3,4) s(2,3) c'(5)])
  moreover have "map (\<lambda>i. row_record cfg rs ratio k ((tf \<circ> \<pi>) i) ((df \<circ> \<pi>) i) ((rh \<circ> \<pi>) i)
                       ((w \<circ> \<pi>) i) ((p \<circ> \<pi>) i)) [0..<nrows ?d] =
                 map (\<lambda>i. res ! \<pi> i) [0..<nrows data]"
    using assms(2) by (simp add: r columns_permute_rows)
  ultimately show ?thesis
    by (simp add: d derived_frame_permute)
qed

lemma estimate_permuted_Inl:
  assumes "estimate_leaf_wetness data cfg = Inl e"
  shows "estimate_leaf_wetness (permute_rows \<pi> data) cfg = Inl e"
  using assms
  unfolding estimate_cases [of "permute_rows \<pi> data"] estimate_cases [of data]
  by (simp add: columns_permute_rows split: sum.splits option.splits)

text \<open>
  C8. Running the estimator on the table with its rows permuted gives the records of the
  original run in the permuted order, each record unchanged, and leaves the permuted
  table of the original run; when the original run raises, the permuted run raises the
  same exception.
\<close>

theorem permuted_rows:
  assumes "bij_betw \<pi> {..<nrows data} {..<nrows data}"
  shows "(\<forall>data' res. estimate_leaf_wetness data cfg = Inr (data', res) \<longrightarrow>
            estimate_leaf_wetness (permute_rows \<pi> data) cfg =
              Inr (permute_rows \<pi> data', map (\<lambda>i. res ! \<pi> i) [0..<nrows data])) \<and>
         (\<forall>e. estimate_leaf_wetness data cfg = Inl e \<longrightarrow>
            estimate_leaf_wetness (permute_rows \<pi> data) cfg = Inl e)"
proof -
  have "\<forall>i < nrows data. \<pi> i < nrows data"
    using assms by (auto simp: bij_betw_def)
  then show ?thesis
    using estimate_permuted_Inr estimate_permuted_Inl by blast
qed

lemma swap01_bij: "bij_betw swap01 {..<2} {..<2}"
  by (rule bij_betw_byWitness [where f' = swap01]) (auto simp: swap01_def)

text \<open>The example table with its two rows swapped: the two records come out swapped.\<close>

theorem permuted_rows_witness:
  "bij_betw swap01 {..<nrows example_frame} {..<nrows example_frame} \<and>
   (\<exists>data' r0 r1.
      estimate_leaf_wetness example_frame default_config = Inr (data', [r0, r1]) \<and>
      estimate_leaf_wetness (permute_rows swap01 example_frame) default_config =
        Inr (permute_rows swap01 data', [r1, r0]))"
proof -
  have n: "nrows example_frame = 2"
    by (simp add: example_frame_def columns_table)
  have b: "bij_betw swap01 {..<nrows example_frame} {..<nrows example_frame}"
    using swap01_bij by (simp add: n)
  obtain data' r0 r1 where
    est: "estimate_leaf_wetness example_frame default_config = Inr (data', [r0, r1])"
    unfolding example_frame_def estimate_table by (simp add: upt_rec)
  from permuted_rows [OF b, of default_config] est
  have "estimate_leaf_wetness (permute_rows swap01 example_frame) default_config =
      Inr (permute_rows swap01 data', map (\<lambda>i. [r0, r1] ! swap01 i) [0..<nrows example_frame])"
    by blast
  then have "estimate_leaf_wetness (permute_rows swap01 example_frame) default_config =
      Inr (permute_rows swap01 data', [r1, r0])"
    by (simp add: n upt_rec swap01_def)
  with b est show ?thesis by blast
qed

subsection \<open>Missing columns and missing cells\<close>




subsection \<open>Bounds through the arithmetic\<close>

text \<open>
  Each operation on cells within known bounds gives a cell within bounds, as long as
  the bounds stay far below the overflow threshold.
\<close>

lemma in_range_Fin: "in_range lo hi (Fin r) \<longleftrightarrow> lo \<le> r \<and> r \<le> hi"
  by (simp add: in_range_def)

lemma in_range_finite: "in_range lo hi x \<Longrightarrow> is_finite x"
  by (auto simp: in_range_def)

lemma in_range_rnd:
  assumes "lo \<le> r" and "r \<le> hi" and "- (10 ^ 30) \<le> lo" and "hi \<le> 10 ^ 30"
  shows "in_range lo hi (rnd r)"
  using rnd_Fin [OF assms] assms(1,2) by (simp add: in_range_def)

lemma range_add:
  assumes "in_range a b x" and "in_range c d y"
      and "lo \<le> a + c" and "b + d \<le> hi" and "- (10 ^ 30) \<le> lo" and "hi \<le> 10 ^ 30"
  shows "in_range lo hi (fadd x y)"
proof -
  from assms(1,2) obtain r s where x: "x = Fin r" "a \<le> r" "r \<le> b"
    and y: "y = Fin s" "c \<le> s" "s \<le> d"
    by (auto simp: in_range_def)
  have "in_range lo hi (rnd (r + s))"
    using x y assms(3,4) by (intro in_range_rnd assms(5,6)) simp_all
  then show ?thesis by (simp add: x y)
qed

lemma range_sub:
  assumes "in_range a b x" and "in_range c d y"
      and "lo \<le> a - d" and "b - c \<le> hi" and "- (10 ^ 30) \<le> lo" and "hi \<le> 10 ^ 30"
  shows "in_range lo hi (fsub x y)"
proof -
  from assms(1,2) obtain r s where x: "x = Fin r" "a \<le> r" "r \<le> b"
    and y: "y = Fin s" "c \<le> s" "s \<le> d"
    by (auto simp: in_range_def)
  have "in_range lo hi (rnd (r + - s))"
    using x y assms(3,4) by (intro in_range_rnd assms(5,6)) simp_all
  then show ?thesis by (simp add: x y fsub_def)
qed

lemma range_mul:
  assumes "in_range a b x" and "in_range c d y" and "0 \<le> a" and "0 \<le> c"
      and "lo \<le> a * c" and "b * d \<le> hi" and "- (10 ^ 30) \<le> lo" and "hi \<le> 10 ^ 30"
  shows "in_range lo hi (fmul x y)"
proof -
  from assms(1,2) obtain r s where x: "x = Fin r" "a \<le> r" "r \<le> b"
    and y: "y = Fin s" "c \<le> s" "s \<le> d"
    by (auto simp: in_range_def)
  have "a * c \<le> r * s"
    using x y assms(3,4) by (intro mult_mono) simp_all
  moreover have "r * s \<le> b * d"
    using x y assms(3,4) by (intro mult_mono) simp_all
  ultimately have "in_range lo hi (rnd (r * s))"
    using assms(5,6) by (intro in_range_rnd assms(7,8)) simp_all
  then show ?thesis by (simp add: x y)
qed

lemma range_mul_neg:
  assumes "in_range a b x" and "in_range c d y" and "0 \<le> a" and "d \<le> 0"
      and "lo \<le> b * c" and "a * d \<le> hi" and "- (10 ^ 30) \<le> lo" and "hi \<le> 10 ^ 30"
  shows "in_range lo hi (fmul x y)"
proof -
  from assms(1,2) obtain r s where x: "x = Fin r" "a \<le> r" "r \<le> b"
    and y: "y = Fin s" "c \<le> s" "s \<le> d"
    by (auto simp: in_range_def)
  have "b * (- c) \<ge> r * (- s)"
    using x y assms(3,4) by (intro mult_mono) simp_all
  moreover have "r * (- s) \<ge> a * (- d)"
    using x y assms(3,4) by (intro mult_mono) simp_all
  ultimately have "in_range lo hi (rnd (r * s))"
    using assms(5,6) by (intro in_range_rnd assms(7,8)) simp_all
  then show ?thesis by (simp add: x y)
qed

lemma range_scale:
  assumes "in_range a b x" and "0 \<le> c"
      and "lo \<le> a * c" and "b * c \<le> hi" and "- (10 ^ 30) \<le> lo" and "hi \<le> 10 ^ 30"
  shows "in_range lo hi (fmul x (Fin c))" and "in_range lo hi (fmul (Fin c) x)"
proof -
  from assms(1) obtain r where x: "x = Fin r" "a \<le> r" "r \<le> b"
    by (auto simp: in_range_def)
  have "a * c \<le> r * c" "r * c \<le> b * c"
    using x assms(2) by (simp_all add: mult_right_mono)
  then have "in_range lo hi (rnd (r * c))"
    using assms(3,4) by (intro in_range_rnd assms(5,6)) simp_all
  then show "in_range lo hi (fmul x (Fin c))" and "in_range lo hi (fmul (Fin c) x)"
    by (simp_all add: x mult.commute)
qed

lemma range_div_const:
  assumes "in_range a b x" and "0 < c"
      and "lo \<le> a / c" and "b / c \<le> hi" and "- (10 ^ 30) \<le> lo" and "hi \<le> 10 ^ 30"
  shows "in_range lo hi (fdiv x (Fin c))"
proof -
  from assms(1) obtain r where x: "x = Fin r" "a \<le> r" "r \<le> b"
    by (auto simp: in_range_def)
  have "a / c \<le> r / c" "r / c \<le> b / c"
    using x assms(2) by (simp_all add: divide_right_mono)
  then have "in_range lo hi (rnd (r / c))"
    using assms(3,4) by (intro in_range_rnd assms(5,6)) simp_all
  then show ?thesis using assms(2) by (simp add: x)
qed

lemma range_div:
  assumes "in_range a b x" and "in_range c d y" and "0 \<le> a" and "0 < c"
      and "lo \<le> a / d" and "b / c \<le> hi" and "- (10 ^ 30) \<le> lo" and "hi \<le> 10 ^ 30"
  shows "in_range lo hi (fdiv x y)"
proof -
  from assms(1,2) obtain r s where x: "x = Fin r" "a \<le> r" "r \<le> b"
    and y: "y = Fin s" "c \<le> s" "s \<le> d"
    by (auto simp: in_range_def)
  have s: "0 < s" using y assms(4) by simp
  have "a / d \<le> r / s"
    using x y assms(3,4) s by (intro frac_le) simp_all
  moreover have "r / s \<le> b / c"
    using x y assms(3,4) s by (intro frac_le) simp_all
  ultimately have "in_range lo hi (rnd (r / s))"
    using assms(5,6) by (intro in_range_rnd assms(7,8)) simp_all
  then show ?thesis using s by (simp add: x y)
qed

lemma exp_nat_le: "exp (real n) \<le> 3 ^ n"
proof -
  have "exp (real n) = exp 1 ^ n"
    using exp_of_nat_mult [of n "1::real"] by simp
  also have "\<dots> \<le> 3 ^ n"
    using exp_le by (intro power_mono) simp_all
  finally show ?thesis .
qed

lemma range_exp:
  assumes "in_range a b x" and "- real m \<le> a" and "b \<le> real n"
      and "lo \<le> 1 / 3 ^ m" and "3 ^ n \<le> hi" and "- (10 ^ 30) \<le> lo" and "hi \<le> 10 ^ 30"
  shows "in_range lo hi (fexp x)"
proof -
  from assms(1) obtain r where x: "x = Fin r" "a \<le> r" "r \<le> b"
    by (auto simp: in_range_def)
  have "exp r \<le> exp (real n)"
    using x assms(3) by simp
  from this exp_nat_le [of n] have up: "exp r \<le> 3 ^ n"
    by (rule order_trans)
  have "exp (- r) \<le> exp (real m)"
    using x assms(2) by simp
  from this exp_nat_le [of m] have "exp (- r) \<le> 3 ^ m"
    by (rule order_trans)
  then have "1 / 3 ^ m \<le> 1 / exp (- r)"
    by (intro frac_le) simp_all
  moreover have "1 / exp (- r) = exp r"
    by (simp add: exp_minus field_simps)
  ultimately have low: "1 / 3 ^ m \<le> exp r"
    by (simp only:)
  have "in_range lo hi (rnd (exp r))"
    using up low assms(4,5) by (intro in_range_rnd assms(6,7)) simp_all
  then show ?thesis by (simp add: x)
qed

lemma range_powr:
  assumes "in_range a b x" and "1 \<le> a" and "0 \<le> y" and "y \<le> 1"
      and "lo \<le> 1" and "b \<le> hi" and "- (10 ^ 30) \<le> lo" and "hi \<le> 10 ^ 30"
  shows "in_range lo hi (fpow_frac x y)"
proof -
  from assms(1) obtain r where x: "x = Fin r" "a \<le> r" "r \<le> b"
    by (auto simp: in_range_def)
  have r: "1 \<le> r" using x assms(2) by simp
  have "1 \<le> r powr y"
    using r assms(3) by (rule ge_one_powr_ge_zero)
  moreover have "r powr y \<le> r powr 1"
    using r assms(4) by (intro powr_mono) simp_all
  ultimately have "in_range lo hi (rnd (r powr y))"
    using r x assms(5,6) by (intro in_range_rnd assms(7,8)) simp_all
  then show ?thesis using r by (simp add: x)
qed

lemma range_pow:
  assumes "in_range a b x" and "0 \<le> a"
      and "lo \<le> a ^ n" and "b ^ n \<le> hi" and "- (10 ^ 30) \<le> lo" and "hi \<le> 10 ^ 30"
  shows "in_range lo hi (fpow_nat x n)"
proof -
  from assms(1) obtain r where x: "x = Fin r" "a \<le> r" "r \<le> b"
    by (auto simp: in_range_def)
  have "a ^ n \<le> r ^ n" "r ^ n \<le> b ^ n"
    using x assms(2) by (simp_all add: power_mono)
  then have "in_range lo hi (rnd (r ^ n))"
    using assms(3,4) by (intro in_range_rnd assms(5,6)) simp_all
  then show ?thesis by (simp add: x)
qed

subsection \<open>The wind speed floor\<close>

lemma rnd_small: "- (10 ^ 30) \<le> r \<Longrightarrow> r \<le> 10 ^ 30 \<Longrightarrow> rnd r = Fin r"
  by (rule rnd_Fin [of r r r]) simp_all

lemma wind_floor: "\<not> fgt w (Fin 0) \<Longrightarrow> Wind_Speed_ms_of w = Fin 0.001"
  by (simp add: Wind_Speed_ms_of_def)

lemma floor_Reynolds:
  assumes "\<not> fgt w (Fin 0)"
  shows "in_range 8 9 (row_Reynolds default_config w)"
  using assms
  by (simp add: row_Reynolds_def Reynolds_Number_of_def wind_floor default_config_def
      rnd_small in_range_Fin)

lemma floor_Nusselt:
  assumes "\<not> fgt w (Fin 0)"
  shows "in_range 0.72 6.48 (row_Nusselt default_config w)"
proof -
  have "in_range 1 9 (fpow_frac (row_Reynolds default_config w) 0.6)"
    by (rule range_powr [OF floor_Reynolds [OF assms]]) simp_all
  then show ?thesis
    unfolding row_Nusselt_def Nusselt_Number_of_def
    by (rule range_scale(2)) simp_all
qed

lemma floor_rB:
  assumes "\<not> fgt w (Fin 0)"
  shows "in_range 900 8500 (row_rB default_config w)"
proof -
  have d: "in_range (15 / 10 ^ 6) (14 / 10 ^ 5) (fmul (Fin 0.0000215) (row_Nusselt default_config w))"
    by (rule range_scale(2) [OF floor_Nusselt [OF assms]]) simp_all
  have n: "in_range 0.126563029533657 0.126563029533657 (Fin 0.126563029533657)"
    by (simp add: in_range_Fin)
  have "in_range 900 8500
          (fdiv (Fin 0.126563029533657) (fmul (Fin 0.0000215) (row_Nusselt default_config w)))"
    by (rule range_div [OF n d]) simp_all
  then show ?thesis
    by (simp add: row_rB_def rB_of_def default_config_def)
qed

lemma floor_hH:
  assumes "\<not> fgt w (Fin 0)"
  shows "in_range 0.1 1.5 (row_hH default_config w)"
proof -
  have n: "in_range (1.293 * 1005) (1.293 * 1005) (Fin (1.293 * 1005))"
    by (simp add: in_range_Fin)
  have "in_range 0.1 1.5 (fdiv (Fin (1.293 * 1005)) (row_rB default_config w))"
    by (rule range_div [OF n floor_rB [OF assms]]) simp_all
  then show ?thesis
    by (simp add: row_hH_def hH_of_def default_config_def)
qed

lemma floor_hET_divisor:
  assumes "\<not> fgt w (Fin 0)"
  shows "in_range 200 2400
           (fmul (Fin (psychrometer_constant_Pa_K default_config))
              (fadd (row_rB default_config w) (Fin rS_default)))"
proof -
  have r: "in_range 0 1000 (Fin rS_default)"
    using rS_default_pos rS_default_le by (simp add: in_range_Fin)
  have "in_range 900 9500 (fadd (row_rB default_config w) (Fin rS_default))"
    by (rule range_add [OF floor_rB [OF assms] r]) simp_all
  then have "in_range 200 2400
           (fmul (Fin 0.245670633) (fadd (row_rB default_config w) (Fin rS_default)))"
    by (rule range_scale(2)) simp_all
  then show ?thesis by (simp add: default_config_def)
qed

lemma first_missing_None:
  assumes "first_missing data = None"
  obtains tf df rh w p where
    "columns data ''AIR_TEMP_F'' = Some tf" "columns data ''DEWPOINT_F'' = Some df"
    "columns data ''RELATIVE_HUMIDITY_%'' = Some rh"
    "columns data ''WIND_SPEED_2M_MPH'' = Some w" "columns data ''PRECIP_INCHES'' = Some p"
  using assms by (auto simp: first_missing_def raw_fields_def split: if_splits)

text \<open>
  C6. With the configuration of the source and the five raw columns present, the run
  raises nothing. In every row whose wind speed is not above 0 (zero, negative, or
  missing), the wind speed in m/s is the constant 0.001, and the Reynolds number, the
  Nusselt number, the boundary layer resistance \<open>rB\<close> and the coefficient \<open>hH\<close> are
  finite; the three divisors that the wind enters (0.0000215 times the Nusselt number,
  \<open>rB\<close>, and the psychrometer constant times \<open>rB + rS\<close>) are finite and not zero.
\<close>

theorem zero_wind_chain:
  assumes "first_missing data = None"
  shows "\<exists>data' res w ws re nu rb hh.
     estimate_leaf_wetness data default_config = Inr (data', res) \<and>
     columns data ''WIND_SPEED_2M_MPH'' = Some w \<and>
     columns data' ''Wind Speed (m/s)'' = Some ws \<and>
     columns data' ''Reynolds Number'' = Some re \<and>
     columns data' ''Nusselt Number'' = Some nu \<and>
     columns data' ''rB (s/m)'' = Some rb \<and>
     columns data' ''hH'' = Some hh \<and>
     (\<forall>i. \<not> fgt (w i) (Fin 0) \<longrightarrow>
        ws i = Fin 0.001 \<and> is_finite (re i) \<and> is_finite (nu i) \<and> is_finite (rb i) \<and>
        is_finite (hh i) \<and>
        (\<exists>r. fmul (Fin 0.0000215) (nu i) = Fin r \<and> 0 < r) \<and>
        (\<exists>r. rb i = Fin r \<and> 0 < r) \<and>
        (\<exists>r. fmul (Fin (psychrometer_constant_Pa_K default_config))
                (fadd (rb i) (Fin rS_default)) = Fin r \<and> 0 < r)) \<and>
     (\<forall>i x. w i = Fin x \<and> x \<le> 0 \<longrightarrow> \<not> fgt (w i) (Fin 0))"
proof -
  from assms obtain tf df rh w p where
    c: "columns data ''AIR_TEMP_F'' = Some tf" "columns data ''DEWPOINT_F'' = Some df"
    "columns data ''RELATIVE_HUMIDITY_%'' = Some rh"
    "columns data ''WIND_SPEED_2M_MPH'' = Some w" "columns data ''PRECIP_INCHES'' = Some p"
    by (rule first_missing_None)
  let ?ratio = "Fin (ln 2.55 / ln 5.05)" and ?k = "1 / 0.0315 ^ 2 :: real"
  let ?data' = "derived_frame default_config rS_default ?ratio ?k tf df rh w p data"
  note est = estimate_default [OF c]
  have ws: "columns ?data' ''Wind Speed (m/s)'' = Some (\<lambda>i. Wind_Speed_ms_of (w i))"
    and re: "columns ?data' ''Reynolds Number'' = Some (\<lambda>i. row_Reynolds default_config (w i))"
    and nu: "columns ?data' ''Nusselt Number'' = Some (\<lambda>i. row_Nusselt default_config (w i))"
    and rb: "columns ?data' ''rB (s/m)'' = Some (\<lambda>i. row_rB default_config (w i))"
    and hh: "columns ?data' ''hH'' = Some (\<lambda>i. row_hH default_config (w i))"
    by (simp_all add: derived_frame_def derived_columns_def)
  have fl: "\<forall>i. \<not> fgt (w i) (Fin 0) \<longrightarrow>
        Wind_Speed_ms_of (w i) = Fin 0.001 \<and> is_finite (row_Reynolds default_config (w i)) \<and>
        is_finite (row_Nusselt default_config (w i)) \<and> is_finite (row_rB default_config (w i)) \<and>
        is_finite (row_hH default_config (w i)) \<and>
        (\<exists>r. fmul (Fin 0.0000215) (row_Nusselt default_config (w i)) = Fin r \<and> 0 < r) \<and>
        (\<exists>r. row_rB default_config (w i) = Fin r \<and> 0 < r) \<and>
        (\<exists>r. fmul (Fin (psychrometer_constant_Pa_K default_config))
                (fadd (row_rB default_config (w i)) (Fin rS_default)) = Fin r \<and> 0 < r)"
  proof (intro allI impI)
    fix i assume z: "\<not> fgt (w i) (Fin 0)"
    have d: "in_range (15 / 10 ^ 6) (14 / 10 ^ 5)
               (fmul (Fin 0.0000215) (row_Nusselt default_config (w i)))"
      by (rule range_scale(2) [OF floor_Nusselt [OF z]]) simp_all
    have 1: "\<exists>r. fmul (Fin 0.0000215) (row_Nusselt default_config (w i)) = Fin r \<and> 0 < r"
      using d by (auto simp: in_range_def)
    have 2: "\<exists>r. row_rB default_config (w i) = Fin r \<and> 0 < r"
      using floor_rB [OF z] by (auto simp: in_range_def)
    have 3: "\<exists>r. fmul (Fin (psychrometer_constant_Pa_K default_config))
                (fadd (row_rB default_config (w i)) (Fin rS_default)) = Fin r \<and> 0 < r"
      using floor_hET_divisor [OF z] by (auto simp: in_range_def)
    show "Wind_Speed_ms_of (w i) = Fin 0.001 \<and> is_finite (row_Reynolds default_config (w i)) \<and>
        is_finite (row_Nusselt default_config (w i)) \<and> is_finite (row_rB default_config (w i)) \<and>
        is_finite (row_hH default_config (w i)) \<and>
        (\<exists>r. fmul (Fin 0.0000215) (row_Nusselt default_config (w i)) = Fin r \<and> 0 < r) \<and>
        (\<exists>r. row_rB default_config (w i) = Fin r \<and> 0 < r) \<and>
        (\<exists>r. fmul (Fin (psychrometer_constant_Pa_K default_config))
                (fadd (row_rB default_config (w i)) (Fin rS_default)) = Fin r \<and> 0 < r)"
      using wind_floor [OF z] in_range_finite [OF floor_Reynolds [OF z]]
        in_range_finite [OF floor_Nusselt [OF z]] in_range_finite [OF floor_rB [OF z]]
        in_range_finite [OF floor_hH [OF z]] 1 2 3
      by blast
  qed
  have neg: "\<forall>i x. w i = Fin x \<and> x \<le> 0 \<longrightarrow> \<not> fgt (w i) (Fin 0)"
    by (auto simp: fgt_def)
  show ?thesis
    by (intro exI conjI) (rule est c(4) ws re nu rb hh fl neg)+
qed

text \<open>The second row of the example table has no wind.\<close>

theorem zero_wind_chain_witness:
  "first_missing example_frame = None \<and>
   (\<exists>data' res ws re.
      estimate_leaf_wetness example_frame default_config = Inr (data', res) \<and>
      columns data' ''Wind Speed (m/s)'' = Some ws \<and>
      columns data' ''Reynolds Number'' = Some re \<and>
      ws 1 = Fin 0.001 \<and> is_finite (re 1))"
proof -
  have m: "first_missing example_frame = None"
    by (simp add: first_missing_def raw_fields_def example_frame_def table_def)
  from zero_wind_chain [OF m] obtain data' res w ws re where
    est: "estimate_leaf_wetness example_frame default_config = Inr (data', res)" and
    w: "columns example_frame ''WIND_SPEED_2M_MPH'' = Some w" and
    ws: "columns data' ''Wind Speed (m/s)'' = Some ws" and
    re: "columns data' ''Reynolds Number'' = Some re" and
    fl: "\<forall>i. \<not> fgt (w i) (Fin 0) \<longrightarrow> ws i = Fin 0.001 \<and> is_finite (re i)"
    by blast
  have "w 1 = Fin 0"
    using w by (auto simp: example_frame_def columns_table series_of_def)
  then have "\<not> fgt (w 1) (Fin 0)"
    by (simp add: fgt_def)
  with fl have "ws 1 = Fin 0.001 \<and> is_finite (re 1)" by blast
  with m est ws re show ?thesis by blast
qed

subsection \<open>The row at 50 degrees F with a dew point of 60 degrees F and no wind\<close>

lemma in_range_const: "in_range c c (Fin c)"
  by (simp add: in_range_Fin)

lemma dew_SVP: "in_range 0.6 1.9 (row_SVP (Fin 50))"
proof -
  have "in_range 0 1 (fdiv (fmul (Fin 17.27) (Fin 10)) (fadd (Fin 10) (Fin 237.3)))"
    by (simp add: rnd_small in_range_Fin)
  then have "in_range 1 3 (fexp (fdiv (fmul (Fin 17.27) (Fin 10)) (fadd (Fin 10) (Fin 237.3))))"
    by (rule range_exp [where m = 0 and n = 1]) simp_all
  then have "in_range 0.6 1.9
      (fmul (Fin 0.6108) (fexp (fdiv (fmul (Fin 17.27) (Fin 10)) (fadd (Fin 10) (Fin 237.3)))))"
    by (rule range_scale(2)) simp_all
  then show ?thesis
    by (simp add: row_SVP_def SVP_of_def fahrenheit_to_celsius_Fin)
qed

lemma dew_Slope_kPa: "in_range 0.04 0.13 (row_Slope_kPa (Fin 50))"
proof -
  have "in_range 2458 7787 (fmul (Fin 4098) (row_SVP (Fin 50)))"
    by (rule range_scale(2) [OF dew_SVP]) simp_all
  then have "in_range 0.04 0.13 (fdiv (fmul (Fin 4098) (row_SVP (Fin 50))) (Fin 61157.29))"
    by (rule range_div_const) simp_all
  then show ?thesis
    by (simp add: row_Slope_kPa_def Slope_kPa_of_def fahrenheit_to_celsius_Fin rnd_small
        power2_eq_square)
qed

lemma dew_Slope_mbar: "in_range 0.4 1.3 (row_Slope_mbar (Fin 50))"
  unfolding row_Slope_mbar_def Slope_mbar_of_def
  by (rule range_scale(1) [OF dew_Slope_kPa]) simp_all

lemma dew_Slope_Pa_K: "in_range 0.14 0.48 (row_Slope_Pa_K (Fin 50))"
proof -
  have "in_range 40 130 (fmul (row_Slope_kPa (Fin 50)) (Fin 1000))"
    by (rule range_scale(1) [OF dew_Slope_kPa]) simp_all
  then show ?thesis
    unfolding row_Slope_Pa_K_def Slope_Pa_K_of_def
    by (rule range_div_const) simp_all
qed

lemma dew_hLW: "in_range 5 6 (row_hLW default_config (Fin 50))"
  by (simp add: row_hLW_def hLW_of_def fahrenheit_to_celsius_Fin default_config_def
      rnd_small in_range_Fin power3_eq_cube)

lemma dew_hET: "in_range 0.06 4 (row_hET default_config rS_default (Fin 50) (Fin 0))"
proof -
  have z: "\<not> fgt (Fin 0) (Fin 0)" by (simp add: fgt_def)
  have "in_range (5 / 10 ^ 5) (3 / 10 ^ 3)
      (fdiv (row_Slope_Pa_K (Fin 50))
        (fmul (Fin (psychrometer_constant_Pa_K default_config))
           (fadd (row_rB default_config (Fin 0)) (Fin rS_default))))"
    by (rule range_div [OF dew_Slope_Pa_K floor_hET_divisor [OF z]]) simp_all
  then have "in_range 0.06 4
      (fmul (Fin (1.293 * 1005)) (fdiv (row_Slope_Pa_K (Fin 50))
        (fmul (Fin (psychrometer_constant_Pa_K default_config))
           (fadd (row_rB default_config (Fin 0)) (Fin rS_default)))))"
    by (rule range_scale(2)) simp_all
  then show ?thesis
    by (simp add: row_hET_def hET_of_def default_config_def)
qed

lemma dew_Leaf_Heat_Transfer_Coefficient:
  "in_range 5 12 (row_Leaf_Heat_Transfer_Coefficient default_config rS_default (Fin 50) (Fin 0))"
proof -
  have z: "\<not> fgt (Fin 0) (Fin 0)" by (simp add: fgt_def)
  have "in_range 5 8 (fadd (row_hLW default_config (Fin 50)) (row_hH default_config (Fin 0)))"
    by (rule range_add [OF dew_hLW floor_hH [OF z]]) simp_all
  then show ?thesis
    unfolding row_Leaf_Heat_Transfer_Coefficient_def Leaf_Heat_Transfer_Coefficient_of_def
    by (rule range_add [OF _ dew_hET]) simp_all
qed

lemma dew_DPD: "row_DPD (Fin 50) (Fin 60) = Fin (- 50 / 9)"
  by (simp add: row_DPD_def DPD_of_def fahrenheit_to_celsius_Fin fsub_def rnd_small)

lemma dew_Rhe: "in_range (- 1.1) (- 0.38) (row_Rhe default_config rS_default (Fin 50) (Fin 60) (Fin 0))"
proof -
  have a: "in_range 0.07 0.19
      (fmul (row_Leaf_Heat_Transfer_Coefficient default_config rS_default (Fin 50) (Fin 0))
         (Fin (0.12 * 0.126563029533657)))"
    by (rule range_scale(1) [OF dew_Leaf_Heat_Transfer_Coefficient]) simp_all
  have d: "fsub (fahrenheit_to_celsius (Fin 50)) (fahrenheit_to_celsius (Fin 60)) = Fin (- 50 / 9)"
    using dew_DPD by (simp add: row_DPD_def DPD_of_def)
  have "in_range (- 1.1) (- 0.38)
      (fmul (fmul (row_Leaf_Heat_Transfer_Coefficient default_config rS_default (Fin 50) (Fin 0))
         (Fin (0.12 * 0.126563029533657))) (Fin (- 50 / 9)))"
    by (rule range_mul_neg [OF a in_range_const]) simp_all
  then show ?thesis
    by (simp add: row_Rhe_def Rhe_of_def d Surface_Area_def default_config_def)
qed

lemma dew_condensation_g_s:
  "in_range (- 5 / 10 ^ 4) (- 1 / 10 ^ 4)
     (row_condensation_g_s default_config rS_default (Fin 50) (Fin 60) (Fin 0))"
proof -
  have "in_range (- 5 / 10 ^ 7) (- 1 / 10 ^ 7)
      (fdiv (row_Rhe default_config rS_default (Fin 50) (Fin 60) (Fin 0)) (Fin 2257000))"
    by (rule range_div_const [OF dew_Rhe]) simp_all
  then have "in_range (- 5 / 10 ^ 4) (- 1 / 10 ^ 4)
      (fmul (fdiv (row_Rhe default_config rS_default (Fin 50) (Fin 60) (Fin 0)) (Fin 2257000))
         (Fin 1000))"
    by (rule range_scale(1)) simp_all
  then show ?thesis
    by (simp add: row_condensation_g_s_def condensation_g_s_of_def default_config_def)
qed

lemma dew_condensation_mm:
  "in_range (- 0.08) (- 0.01)
     (row_condensation_mm default_config rS_default (Fin 50) (Fin 60) (Fin 0))"
proof -
  let ?g = "row_condensation_g_s default_config rS_default (Fin 50) (Fin 60) (Fin 0)"
  have 1: "in_range (- 4 / 10 ^ 6) (- 6 / 10 ^ 7)
      (fdiv ?g (Fin (0.12 * 0.126563029533657 * 10000)))"
    by (rule range_div_const [OF dew_condensation_g_s]) simp_all
  have 2: "in_range (- 4 / 10 ^ 5) (- 6 / 10 ^ 6)
      (fmul (fdiv ?g (Fin (0.12 * 0.126563029533657 * 10000))) (Fin 10))"
    by (rule range_scale(1) [OF 1]) simp_all
  have 3: "in_range (- 24 / 10 ^ 4) (- 36 / 10 ^ 5)
      (fmul (fmul (fdiv ?g (Fin (0.12 * 0.126563029533657 * 10000))) (Fin 10)) (Fin 60))"
    by (rule range_scale(1) [OF 2]) simp_all
  have 4: "in_range (- 36 / 10 ^ 3) (- 54 / 10 ^ 4)
      (fmul (fmul (fmul (fdiv ?g (Fin (0.12 * 0.126563029533657 * 10000))) (Fin 10)) (Fin 60))
         (Fin 15))"
    by (rule range_scale(1) [OF 3]) simp_all
  have 5: "in_range (- 0.08) (- 0.01)
      (fmul (fmul (fmul (fmul (fdiv ?g (Fin (0.12 * 0.126563029533657 * 10000))) (Fin 10))
         (Fin 60)) (Fin 15)) (Fin 2))"
    by (rule range_scale(1) [OF 4]) simp_all
  have c: "condensation_mm_of default_config ?g =
      fmul (fmul (fmul (fmul (fdiv ?g (Fin (0.12 * 0.126563029533657 * 10000))) (Fin 10))
         (Fin 60)) (Fin 15)) (Fin 2)"
    by (simp add: condensation_mm_of_def Surface_Area_def default_config_def)
  have t: "flt (row_DPD (Fin 50) (Fin 60)) (Fin (critical_DPD default_config))"
    by (simp add: dew_DPD default_config_def)
  show ?thesis
    unfolding row_condensation_mm_def DPD_constraint_def using 5 t c by simp
qed

lemma fdiv_zero: "in_range a b y \<Longrightarrow> 0 < a \<Longrightarrow> fdiv (Fin 0) y = Fin 0"
  by (auto simp: in_range_def rnd_small)

lemma fmul_zero: "in_range a b x \<Longrightarrow> fmul x (Fin 0) = Fin 0 \<and> fmul (Fin 0) x = Fin 0"
  by (auto simp: in_range_def rnd_small)

lemma dew_AVP: "in_range 0.54 1.71 (row_AVP (Fin 50) (Fin 90))"
proof -
  have "in_range 0.54 1.71 (fmul (row_SVP (Fin 50)) (Fin 0.9))"
    by (rule range_scale(1) [OF dew_SVP]) simp_all
  then show ?thesis
    by (simp add: row_AVP_def AVP_of_def rnd_small)
qed

lemma calm_Transfer_Coefficient:
  "row_Transfer_Coefficient default_config (Fin q) k (Fin 0) = Fin 0"
  by (simp add: row_Transfer_Coefficient_def Transfer_Coefficient_of_def row_Uc_def Uc_of_def
      Uz_of_def rnd_small)

lemma dew_Ep: "row_Ep default_config (Fin q) k (Fin 50) (Fin 90) (Fin 0) = Fin 0"
proof -
  have g: "in_range 1 2 (fadd (row_Slope_mbar (Fin 50)) (Fin 0.670680828))"
    by (rule range_add [OF dew_Slope_mbar in_range_const]) simp_all
  have l: "in_range 2450 4900 (fmul (Fin 2450) (fadd (row_Slope_mbar (Fin 50)) (Fin 0.670680828)))"
    by (rule range_scale(2) [OF g]) simp_all
  have a: "in_range 0 1
      (fdiv (row_Slope_mbar (Fin 50))
         (fmul (Fin 2450) (fadd (row_Slope_mbar (Fin 50)) (Fin 0.670680828))))"
    by (rule range_div [OF dew_Slope_mbar l]) simp_all
  have b: "fmul (Fin (0.001225 * 1.012)) (fdiv (Fin 0) (row_Slope_mbar (Fin 50))) = Fin 0"
    using fdiv_zero [OF dew_Slope_mbar] by (simp add: rnd_small)
  have d: "in_range (- 2) 2 (fsub (row_SVP (Fin 50)) (row_AVP (Fin 50) (Fin 90)))"
    by (rule range_sub [OF dew_SVP dew_AVP]) simp_all
  have c: "in_range (- 20) 20 (fmul (fsub (row_SVP (Fin 50)) (row_AVP (Fin 50) (Fin 90))) (Fin 10))"
    by (rule range_scale(1) [OF d]) simp_all
  show ?thesis
    unfolding row_Ep_def Ep_of_def calm_Transfer_Coefficient
    using b fmul_zero [OF a] fmul_zero [OF c] by (simp add: default_config_def)
qed

lemma dew_Evaporation:
  "row_Evaporation default_config (Fin q) k (Fin 50) (Fin 90) (Fin 0) = Fin 0"
  by (simp add: row_Evaporation_def Evaporation_of_def row_E_def E_of_def dew_Ep rnd_small)

lemma dew_wetness:
  "row_wetness default_config rS_default (Fin q) k (Fin 50) (Fin 60) (Fin 90) (Fin 0) (Fin 0) = Fin 0"
proof -
  from dew_condensation_mm obtain c where
    c: "row_condensation_mm default_config rS_default (Fin 50) (Fin 60) (Fin 0) = Fin c"
    and b: "- 0.08 \<le> c" "c \<le> - 0.01"
    by (auto simp: in_range_def)
  have "rnd c = Fin c"
    using b by (intro rnd_Fin [of "- 0.08" c "- 0.01"]) simp_all
  then show ?thesis
    using b
    by (simp add: row_wetness_def leaf_wetness_row_def no_negative_def fgt_def fsub_def
        Rain_Interception_of_def dew_Evaporation c)
qed

text \<open>
  C9. The published potential condensation is not clamped. In the table of one calm row
  at 50 degrees F with a dew point of 60 degrees F (so the dew point depression is
  negative, below the threshold), every column of the row is finite, the published
  condensation is a negative number (between -0.08 and -0.01 mm), and the published
  wetness is 0: the floor at 0 is applied to the wetness only.
\<close>

theorem condensation_not_clamped:
  "\<exists>data' res c.
     estimate_leaf_wetness dew_frame default_config = Inr (data', res) \<and>
     map_of (res ! 0) ''AIR_TEMP_F'' = Some (Fin 50) \<and>
     map_of (res ! 0) ''DEWPOINT_F'' = Some (Fin 60) \<and>
     map_of (res ! 0) ''Potential condensation of dew (mm)'' = Some (Fin c) \<and> c < 0 \<and>
     map_of (res ! 0) ''Estimated Leaf Wetness (mm)'' = Some (Fin 0) \<and>
     list_all (\<lambda>k. \<exists>s. columns data' k = Some s \<and> is_finite (s 0))
       (raw_fields @ derived_fields)"
proof -
  let ?q = "ln 2.55 / ln 5.05 :: real" and ?k = "1 / 0.0315 ^ 2 :: real"
  let ?data' = "derived_frame default_config rS_default (Fin ?q) ?k
            (series_of [Fin 50]) (series_of [Fin 60]) (series_of [Fin 90]) (series_of [Fin 0])
            (series_of [Fin 0]) (table [Fin 50] [Fin 60] [Fin 0] [Fin 90] [Fin 0])"
  let ?res = "[row_record default_config rS_default (Fin ?q) ?k (Fin 50) (Fin 60) (Fin 90)
                 (Fin 0) (Fin 0)]"
  from dew_condensation_mm obtain c where
    c: "row_condensation_mm default_config rS_default (Fin 50) (Fin 60) (Fin 0) = Fin c"
    and b: "c \<le> - 0.01"
    by (auto simp: in_range_def)
  have z: "\<not> fgt (Fin 0) (Fin 0)" by (simp add: fgt_def)
  have est: "estimate_leaf_wetness dew_frame default_config = Inr (?data', ?res)"
    by (simp add: dew_frame_def estimate_table series_of_def)
  have r1: "map_of (?res ! 0) ''AIR_TEMP_F'' = Some (Fin 50)"
    and r2: "map_of (?res ! 0) ''DEWPOINT_F'' = Some (Fin 60)"
    and r3: "map_of (?res ! 0) ''Potential condensation of dew (mm)'' = Some (Fin c)"
    and r4: "map_of (?res ! 0) ''Estimated Leaf Wetness (mm)'' = Some (Fin 0)"
    by (simp_all add: row_record_def c dew_wetness)
  have neg: "c < 0" using b by simp
  have fin: "list_all (\<lambda>k. \<exists>s. columns ?data' k = Some s \<and> is_finite (s 0))
       (raw_fields @ derived_fields)"
    using in_range_finite [OF dew_SVP] in_range_finite [OF dew_Slope_kPa]
      in_range_finite [OF dew_Slope_mbar] in_range_finite [OF dew_AVP]
      in_range_finite [OF floor_Reynolds [OF z]] in_range_finite [OF floor_Nusselt [OF z]]
      in_range_finite [OF floor_rB [OF z]] in_range_finite [OF dew_hLW]
      in_range_finite [OF floor_hH [OF z]] in_range_finite [OF dew_Slope_Pa_K]
      in_range_finite [OF dew_hET] in_range_finite [OF dew_Leaf_Heat_Transfer_Coefficient]
      in_range_finite [OF dew_Rhe] in_range_finite [OF dew_condensation_g_s]
    by (simp add: raw_fields_def derived_fields_def derived_frame_def derived_columns_def table_def
        series_of_def
        fahrenheit_to_celsius_Fin dew_DPD calm_Transfer_Coefficient dew_Ep dew_Evaporation
        dew_wetness c row_E_def E_of_def row_Uc_def Uc_of_def Uz_of_def rnd_small
        Wind_Speed_ms_of_def fgt_def Rain_Interception_of_def)
  show ?thesis
    using est r1 r2 r3 r4 neg fin by blast
qed

subsection \<open>Values that are not finite\<close>

lemma exp_overflow:
  assumes "1024 \<le> r"
  shows "rnd (exp r) = PInf"
proof -
  have "(2::real) \<le> exp 1"
    using exp_ge_add_one_self [of "1::real"] by simp
  then have "(2::real) ^ 1024 \<le> exp 1 ^ 1024"
    by (intro power_mono) simp_all
  also have "\<dots> = exp (real (1024::nat))"
    using exp_of_nat_mult [of 1024 "1::real"] by simp
  also have "\<dots> \<le> exp r"
    using assms by simp
  finally have "float_overflow \<le> exp r"
    by (simp add: float_overflow_def)
  then show ?thesis by (simp add: rnd_def)
qed

lemma signed_inf_not_finite [simp]: "\<not> is_finite (signed_inf b)"
  by (cases b) simp_all

lemma not_finite_fdiv: "\<not> is_finite x \<Longrightarrow> \<not> is_finite (fdiv x y)"
  by (cases x; cases y) (auto split: if_splits)

lemma not_finite_scale:
  "\<not> is_finite x \<Longrightarrow> c \<noteq> 0 \<Longrightarrow> \<not> is_finite (fmul (Fin c) x) \<and> \<not> is_finite (fmul x (Fin c))"
  by (cases x) (auto split: if_splits)

lemma not_finite_fadd: "\<not> is_finite y \<Longrightarrow> \<not> is_finite (fadd x y)"
  by (cases x; cases y) auto

lemma not_finite_times_zero: "\<not> is_finite x \<Longrightarrow> fmul x (Fin 0) = NaN"
  by (cases x) auto

lemma cold_Slope_kPa: "row_Slope_kPa (Fin (- 400)) = PInf"
proof -
  have "fdiv (fmul (Fin 17.27) (Fin (- 240))) (fadd (Fin (- 240)) (Fin 237.3)) = Fin (41448 / 27)"
    by (simp add: rnd_small)
  moreover have "rnd (exp (41448 / 27)) = PInf"
    by (rule exp_overflow) simp
  ultimately have "row_SVP (Fin (- 400)) = PInf"
    by (simp add: row_SVP_def SVP_of_def fahrenheit_to_celsius_Fin)
  then show ?thesis
    by (simp add: row_Slope_kPa_def Slope_kPa_of_def fahrenheit_to_celsius_Fin rnd_small
        power2_eq_square)
qed

lemma cold_condensation:
  "row_condensation_mm default_config rS_default (Fin (- 400)) (Fin (- 400)) w = NaN"
proof -
  have "row_Slope_Pa_K (Fin (- 400)) = PInf"
    by (simp add: row_Slope_Pa_K_def Slope_Pa_K_of_def cold_Slope_kPa)
  then have "\<not> is_finite (row_hET default_config rS_default (Fin (- 400)) w)"
    unfolding row_hET_def hET_of_def
    by (intro not_finite_scale [THEN conjunct1] not_finite_fdiv) (simp_all add: default_config_def)
  then have "\<not> is_finite (row_Leaf_Heat_Transfer_Coefficient default_config rS_default
                 (Fin (- 400)) w)"
    unfolding row_Leaf_Heat_Transfer_Coefficient_def Leaf_Heat_Transfer_Coefficient_of_def
    by (rule not_finite_fadd)
  then have "\<not> is_finite (fmul (row_Leaf_Heat_Transfer_Coefficient default_config rS_default
                 (Fin (- 400)) w) (Fin (Surface_Area default_config)))"
    by (intro not_finite_scale [THEN conjunct2]) (simp_all add: default_config_def Surface_Area_def)
  then have "row_Rhe default_config rS_default (Fin (- 400)) (Fin (- 400)) w = NaN"
    by (simp add: row_Rhe_def Rhe_of_def fahrenheit_to_celsius_Fin fsub_def rnd_small
        not_finite_times_zero)
  moreover have "row_DPD (Fin (- 400)) (Fin (- 400)) = Fin 0"
    by (simp add: row_DPD_def DPD_of_def fahrenheit_to_celsius_Fin fsub_def rnd_small)
  ultimately show ?thesis
    by (simp add: row_condensation_mm_def DPD_constraint_def row_condensation_g_s_def
        condensation_g_s_of_def condensation_mm_of_def default_config_def)
qed

text \<open>
  The claim C4 as stated fails: this table has one row of five finite numbers, the run
  returns, and the published potential condensation of the row is NaN. (17.27 T /
  (T + 237.3) is about 1535 at -240 degrees C, and the exponential of that is beyond
  the largest double.)
\<close>

theorem cold_row_counterexample:
  "list_all (\<lambda>k. \<exists>s. columns cold_frame k = Some s \<and> is_finite (s 0)) raw_fields \<and>
   (\<exists>data' res. estimate_leaf_wetness cold_frame default_config = Inr (data', res) \<and>
      map_of (res ! 0) ''Potential condensation of dew (mm)'' = Some NaN) \<and>
   \<not> is_finite NaN"
  by (simp add: cold_frame_def estimate_table columns_table series_of_def row_record_def
      raw_fields_def cold_condensation)

subsection \<open>Bounds over ordinary weather\<close>

lemma range_div_any:
  assumes "in_range a b x" and "in_range c d y" and "0 < c" and "a \<le> 0" and "0 \<le> b"
      and "lo \<le> a / c" and "b / c \<le> hi" and "- (10 ^ 30) \<le> lo" and "hi \<le> 10 ^ 30"
  shows "in_range lo hi (fdiv x y)"
proof -
  from assms(1,2) obtain r s where x: "x = Fin r" "a \<le> r" "r \<le> b"
    and y: "y = Fin s" "c \<le> s" "s \<le> d"
    by (auto simp: in_range_def)
  have s: "0 < s" using y assms(3) by simp
  have up: "r / s \<le> b / c"
  proof (cases "0 \<le> r")
    case True
    then show ?thesis using x y assms(3) s by (intro frac_le) simp_all
  next
    case False
    then have "r / s \<le> 0" using s by (simp add: divide_le_0_iff)
    moreover have "0 \<le> b / c" using assms(3,5) by simp
    ultimately show ?thesis by simp
  qed
  have low: "a / c \<le> r / s"
  proof (cases "0 \<le> r")
    case True
    then have "0 \<le> r / s" using s by simp
    moreover have "a / c \<le> 0" using assms(3,4) by (simp add: divide_le_0_iff)
    ultimately show ?thesis by simp
  next
    case False
    have "(- r) / s \<le> (- a) / c"
      using False x y assms(3) s by (intro frac_le) simp_all
    then show ?thesis by simp
  qed
  have "in_range lo hi (rnd (r / s))"
    using up low assms(6,7) by (intro in_range_rnd assms(8,9)) simp_all
  then show ?thesis using s by (simp add: x y)
qed

lemma range_mul_any:
  assumes "in_range a b x" and "in_range c d y" and "0 \<le> a" and "c \<le> 0" and "0 \<le> d"
      and "lo \<le> b * c" and "b * d \<le> hi" and "- (10 ^ 30) \<le> lo" and "hi \<le> 10 ^ 30"
  shows "in_range lo hi (fmul x y)"
proof -
  from assms(1,2) obtain r s where x: "x = Fin r" "a \<le> r" "r \<le> b"
    and y: "y = Fin s" "c \<le> s" "s \<le> d"
    by (auto simp: in_range_def)
  have r: "0 \<le> r" "0 \<le> b" using x assms(3) by simp_all
  have up: "r * s \<le> b * d"
  proof (cases "0 \<le> s")
    case True
    then show ?thesis using x y r by (intro mult_mono) simp_all
  next
    case False
    then have "r * s \<le> 0" using r by (simp add: mult_le_0_iff)
    moreover have "0 \<le> b * d" using r assms(5) by simp
    ultimately show ?thesis by simp
  qed
  have low: "b * c \<le> r * s"
  proof (cases "0 \<le> s")
    case True
    then have "0 \<le> r * s" using r by simp
    moreover have "b * c \<le> 0" using r assms(4) by (simp add: mult_le_0_iff)
    ultimately show ?thesis by simp
  next
    case False
    have "r * (- s) \<le> b * (- c)"
      using False x y r by (intro mult_mono) simp_all
    then show ?thesis by simp
  qed
  have "in_range lo hi (rnd (r * s))"
    using up low assms(6,7) by (intro in_range_rnd assms(8,9)) simp_all
  then show ?thesis by (simp add: x y)
qed

lemma powr_le_max:
  fixes r y :: real
  assumes "0 \<le> r" and "0 \<le> y" and "y \<le> 1"
  shows "r powr y \<le> max 1 r"
proof (cases "r \<le> 1")
  case True
  then have "r powr y \<le> 1" using assms by (intro powr_le1) simp_all
  then show ?thesis by simp
next
  case False
  then have "r powr y \<le> r powr 1" using assms by (intro powr_mono) simp_all
  then show ?thesis using False by simp
qed

lemma range_powr0:
  assumes "in_range a b x" and "0 \<le> a" and "0 \<le> y" and "y \<le> 1"
      and "lo \<le> 0" and "1 \<le> hi" and "b \<le> hi" and "- (10 ^ 30) \<le> lo" and "hi \<le> 10 ^ 30"
  shows "in_range lo hi (fpow_frac x y)"
proof -
  from assms(1) obtain r where x: "x = Fin r" "a \<le> r" "r \<le> b"
    by (auto simp: in_range_def)
  have r: "0 \<le> r" using x assms(2) by simp
  have "r powr y \<le> max 1 r" using r assms(3,4) by (rule powr_le_max)
  then have "r powr y \<le> hi" using x assms(6,7) by simp
  moreover have "lo \<le> r powr y"
    using assms(5) powr_ge_zero [of r y] by linarith
  ultimately have "in_range lo hi (rnd (r powr y))"
    by (intro in_range_rnd assms(8,9))
  then show ?thesis using r by (simp add: x)
qed

lemma dom_celsius:
  assumes "in_range (- 100) 200 x"
  shows "in_range (- 74) 94 (fahrenheit_to_celsius x)"
proof -
  have 1: "in_range (- 132) 168 (fsub x (Fin 32))"
    by (rule range_sub [OF assms in_range_const]) simp_all
  have 2: "in_range (- 660) 840 (fmul (fsub x (Fin 32)) (Fin 5))"
    by (rule range_scale(1) [OF 1]) simp_all
  show ?thesis
    unfolding fahrenheit_to_celsius_def
    by (rule range_div_const [OF 2]) simp_all
qed

lemma dom_kelvin_offset:
  assumes "in_range (- 100) 200 tf"
  shows "in_range 163 332 (fadd (fahrenheit_to_celsius tf) (Fin 237.3))"
  by (rule range_add [OF dom_celsius [OF assms] in_range_const]) simp_all

lemma dom_SVP:
  assumes "in_range (- 100) 200 tf"
  shows "in_range (9 / 10 ^ 5) 36100 (row_SVP tf)"
proof -
  let ?tc = "fahrenheit_to_celsius tf"
  have 1: "in_range (- 1278) 1624 (fmul (Fin 17.27) ?tc)"
    by (rule range_scale(2) [OF dom_celsius [OF assms]]) simp_all
  have 2: "in_range (- 8) 10 (fdiv (fmul (Fin 17.27) ?tc) (fadd ?tc (Fin 237.3)))"
    by (rule range_div_any [OF 1 dom_kelvin_offset [OF assms]]) simp_all
  have 3: "in_range (1 / 3 ^ 8) (3 ^ 10) (fexp (fdiv (fmul (Fin 17.27) ?tc) (fadd ?tc (Fin 237.3))))"
    by (rule range_exp [OF 2, where m = 8 and n = 10]) simp_all
  show ?thesis
    unfolding row_SVP_def SVP_of_def
    by (rule range_scale(2) [OF 3]) simp_all
qed

lemma dom_Slope_kPa:
  assumes "in_range (- 100) 200 tf"
  shows "in_range (3 / 10 ^ 6) 5600 (row_Slope_kPa tf)"
proof -
  let ?tc = "fahrenheit_to_celsius tf"
  have 1: "in_range (36 / 10 ^ 2) (148 * 10 ^ 6) (fmul (Fin 4098) (row_SVP tf))"
    by (rule range_scale(2) [OF dom_SVP [OF assms]]) simp_all
  have 2: "in_range 26569 110224 (fpow_nat (fadd ?tc (Fin 237.3)) 2)"
    by (rule range_pow [OF dom_kelvin_offset [OF assms]]) simp_all
  show ?thesis
    unfolding row_Slope_kPa_def Slope_kPa_of_def
    by (rule range_div [OF 1 2]) simp_all
qed

lemma dom_Slope_mbar:
  assumes "in_range (- 100) 200 tf"
  shows "in_range (3 / 10 ^ 5) 56000 (row_Slope_mbar tf)"
  unfolding row_Slope_mbar_def Slope_mbar_of_def
  by (rule range_scale(1) [OF dom_Slope_kPa [OF assms]]) simp_all

lemma dom_Slope_Pa_K:
  assumes "in_range (- 100) 200 tf"
  shows "in_range (1 / 10 ^ 5) 20600 (row_Slope_Pa_K tf)"
proof -
  have "in_range (3 / 10 ^ 3) 5600000 (fmul (row_Slope_kPa tf) (Fin 1000))"
    by (rule range_scale(1) [OF dom_Slope_kPa [OF assms]]) simp_all
  then show ?thesis
    unfolding row_Slope_Pa_K_def Slope_Pa_K_of_def
    by (rule range_div_const) simp_all
qed

lemma dom_hLW:
  assumes "in_range (- 100) 200 tf"
  shows "in_range 1 12 (row_hLW default_config tf)"
proof -
  have 1: "in_range 199 368 (fadd (fahrenheit_to_celsius tf) (Fin 273.15))"
    by (rule range_add [OF dom_celsius [OF assms] in_range_const]) simp_all
  have 2: "in_range (7 * 10 ^ 6) (5 * 10 ^ 7) (fpow_nat (fadd (fahrenheit_to_celsius tf) (Fin 273.15)) 3)"
    by (rule range_pow [OF 1]) (simp_all add: power3_eq_cube)
  have "in_range 1 12 (fmul (Fin (4 * 0.99 * (5.67037 / 10 ^ 8)))
          (fpow_nat (fadd (fahrenheit_to_celsius tf) (Fin 273.15)) 3))"
    by (rule range_scale(2) [OF 2]) simp_all
  then show ?thesis
    by (simp add: row_hLW_def hLW_of_def default_config_def)
qed

lemma pos_upto_Fin: "pos_upto hi (Fin r) \<longleftrightarrow> 0 < r \<and> r \<le> hi"
  by (auto simp: pos_upto_def)

lemma pos_upto_rnd:
  assumes "0 < r" and "r \<le> hi" and "hi \<le> 10 ^ 30"
  shows "pos_upto hi (rnd r)"
proof -
  have "rnd r = Fin r"
    using assms by (intro rnd_Fin [of 0 r hi]) simp_all
  then show ?thesis using assms(1,2) by (simp add: pos_upto_def)
qed

lemma pos_scale:
  assumes "pos_upto b x" and "0 < c" and "b * c \<le> hi" and "hi \<le> 10 ^ 30"
  shows "pos_upto hi (fmul x (Fin c))" and "pos_upto hi (fmul (Fin c) x)"
proof -
  from assms(1) obtain r where x: "x = Fin r" "0 < r" "r \<le> b"
    by (auto simp: pos_upto_def)
  have "r * c \<le> b * c" using x assms(2) by simp
  then have "r * c \<le> hi" using assms(3) by linarith
  moreover have "0 < r * c" using x assms(2) by simp
  ultimately have "pos_upto hi (rnd (r * c))"
    by (intro pos_upto_rnd assms(4))
  then show "pos_upto hi (fmul x (Fin c))" and "pos_upto hi (fmul (Fin c) x)"
    by (simp_all add: x mult.commute)
qed

lemma pos_div_const:
  assumes "pos_upto b x" and "0 < c" and "b / c \<le> hi" and "hi \<le> 10 ^ 30"
  shows "pos_upto hi (fdiv x (Fin c))"
proof -
  from assms(1) obtain r where x: "x = Fin r" "0 < r" "r \<le> b"
    by (auto simp: pos_upto_def)
  have "r / c \<le> b / c" using x assms(2) by (simp add: divide_right_mono)
  then have "r / c \<le> hi" using assms(3) by linarith
  moreover have "0 < r / c" using x assms(2) by simp
  ultimately have "pos_upto hi (rnd (r / c))"
    by (intro pos_upto_rnd assms(4))
  then show ?thesis using assms(2) by (simp add: x)
qed

lemma pos_powr:
  assumes "pos_upto b x" and "0 \<le> y" and "y \<le> 1" and "1 \<le> hi" and "b \<le> hi"
      and "hi \<le> 10 ^ 30"
  shows "pos_upto hi (fpow_frac x y)"
proof -
  from assms(1) obtain r where x: "x = Fin r" "0 < r" "r \<le> b"
    by (auto simp: pos_upto_def)
  have "r powr y \<le> max 1 r" using x assms(2,3) by (intro powr_le_max) simp_all
  then have "r powr y \<le> hi" using x assms(4,5) by simp
  moreover have "0 < r powr y" using x by simp
  ultimately have "pos_upto hi (rnd (r powr y))"
    by (intro pos_upto_rnd assms(6))
  moreover have "\<not> r < 0" using x by simp
  ultimately show ?thesis by (simp add: x(1))
qed

lemma at_least_rnd:
  assumes "lo \<le> r" and "- (10 ^ 30) \<le> lo"
  shows "at_least lo (rnd r)"
proof -
  have "- float_overflow < r"
    using assms float_overflow_big by simp
  then show ?thesis using assms(1) by (simp add: rnd_def at_least_def)
qed

lemma const_div_pos:
  assumes "pos_upto b y" and "0 < c" and "lo \<le> c / b" and "- (10 ^ 30) \<le> lo"
  shows "at_least lo (fdiv (Fin c) y)"
proof -
  from assms(1) obtain s where y: "y = Fin s" "0 < s" "s \<le> b"
    by (auto simp: pos_upto_def)
  have "c / b \<le> c / s"
    using y assms(2) by (intro frac_le) simp_all
  then have "at_least lo (rnd (c / s))"
    using assms(3) by (intro at_least_rnd assms(4)) simp
  then show ?thesis using y by simp
qed

lemma at_least_add:
  assumes "at_least a y" and "in_range c d z" and "lo \<le> a + c" and "- (10 ^ 30) \<le> lo"
  shows "at_least lo (fadd y z)"
proof -
  from assms(2) obtain s where z: "z = Fin s" "c \<le> s"
    by (auto simp: in_range_def)
  from assms(1) show ?thesis
    unfolding at_least_def
  proof (elim disjE exE conjE)
    assume "y = PInf"
    then show "fadd y z = PInf \<or> (\<exists>r. fadd y z = Fin r \<and> lo \<le> r)"
      by (simp add: z)
  next
    fix r assume y: "y = Fin r" "a \<le> r"
    have "at_least lo (rnd (r + s))"
      using y z assms(3) by (intro at_least_rnd assms(4)) simp
    then show "fadd y z = PInf \<or> (\<exists>r. fadd y z = Fin r \<and> lo \<le> r)"
      by (simp add: y z at_least_def)
  qed
qed

lemma at_least_scale:
  assumes "at_least a y" and "0 < c" and "0 \<le> a" and "lo \<le> c * a" and "- (10 ^ 30) \<le> lo"
  shows "at_least lo (fmul (Fin c) y)"
  using assms(1) unfolding at_least_def
proof (elim disjE exE conjE)
  assume "y = PInf"
  then show "fmul (Fin c) y = PInf \<or> (\<exists>r. fmul (Fin c) y = Fin r \<and> lo \<le> r)"
    using assms(2) by simp
next
  fix r assume y: "y = Fin r" "a \<le> r"
  have "c * a \<le> c * r" using y assms(2) by simp
  then have "at_least lo (rnd (c * r))"
    using assms(4) by (intro at_least_rnd assms(5)) simp
  then show "fmul (Fin c) y = PInf \<or> (\<exists>r. fmul (Fin c) y = Fin r \<and> lo \<le> r)"
    by (simp add: y at_least_def)
qed

lemma div_at_least:
  assumes "in_range c d x" and "0 \<le> c" and "at_least a y" and "0 < a"
      and "d / a \<le> hi" and "hi \<le> 10 ^ 30"
  shows "in_range 0 hi (fdiv x y)"
proof -
  from assms(1) obtain r where x: "x = Fin r" "c \<le> r" "r \<le> d"
    by (auto simp: in_range_def)
  have hi: "0 \<le> hi"
    using x assms(2,4,5) by (smt (verit) divide_nonneg_pos)
  from assms(3) show ?thesis
    unfolding at_least_def
  proof (elim disjE exE conjE)
    assume "y = PInf"
    then show ?thesis using hi by (simp add: x in_range_Fin)
  next
    fix s assume y: "y = Fin s" "a \<le> s"
    have s: "0 < s" using y assms(4) by simp
    have "r / s \<le> d / a"
      using x y assms(2,4) by (intro frac_le) simp_all
    moreover have "0 \<le> r / s" using x assms(2) s by simp
    ultimately have "in_range 0 hi (rnd (r / s))"
      using assms(5) by (intro in_range_rnd assms(6)) simp_all
    then show ?thesis using s by (simp add: x y)
  qed
qed

lemma dom_wind:
  assumes "in_range 0 1000 w"
  shows "pos_upto 448 (Wind_Speed_ms_of w)"
proof -
  from assms obtain x where w: "w = Fin x" "0 \<le> x" "x \<le> 1000"
    by (auto simp: in_range_def)
  show ?thesis
  proof (cases "0 < x")
    case True
    have "pos_upto 448 (rnd (0.44704 * x))"
      using True w by (intro pos_upto_rnd) simp_all
    then show ?thesis using True by (simp add: Wind_Speed_ms_of_def w fgt_def)
  next
    case False
    then show ?thesis by (simp add: Wind_Speed_ms_of_def w fgt_def pos_upto_Fin)
  qed
qed

lemma dom_Reynolds:
  assumes "in_range 0 1000 w"
  shows "pos_upto (4 * 10 ^ 6) (row_Reynolds default_config w)"
proof -
  have 1: "pos_upto 57 (fmul (Wind_Speed_ms_of w) (Fin 0.126563029533657))"
    by (rule pos_scale(1) [OF dom_wind [OF assms]]) simp_all
  have "pos_upto (4 * 10 ^ 6)
      (fdiv (fmul (Wind_Speed_ms_of w) (Fin 0.126563029533657)) (Fin 0.0000156))"
    by (rule pos_div_const [OF 1]) simp_all
  then show ?thesis
    by (simp add: row_Reynolds_def Reynolds_Number_of_def default_config_def)
qed

lemma dom_rB:
  assumes "in_range 0 1000 w"
  shows "at_least (1 / 1000) (row_rB default_config w)"
proof -
  have 1: "pos_upto (4 * 10 ^ 6) (fpow_frac (row_Reynolds default_config w) 0.6)"
    by (rule pos_powr [OF dom_Reynolds [OF assms]]) simp_all
  have 2: "pos_upto (3 * 10 ^ 6) (row_Nusselt default_config w)"
    unfolding row_Nusselt_def Nusselt_Number_of_def
    by (rule pos_scale(2) [OF 1]) simp_all
  have 3: "pos_upto 65 (fmul (Fin 0.0000215) (row_Nusselt default_config w))"
    by (rule pos_scale(2) [OF 2]) simp_all
  have "at_least (1 / 1000)
      (fdiv (Fin 0.126563029533657) (fmul (Fin 0.0000215) (row_Nusselt default_config w)))"
    by (rule const_div_pos [OF 3]) simp_all
  then show ?thesis
    by (simp add: row_rB_def rB_of_def default_config_def)
qed

lemma dom_hH:
  assumes "in_range 0 1000 w"
  shows "in_range 0 (2 * 10 ^ 6) (row_hH default_config w)"
proof -
  have "in_range 0 (2 * 10 ^ 6) (fdiv (Fin (1.293 * 1005)) (row_rB default_config w))"
    by (rule div_at_least [OF in_range_const _ dom_rB [OF assms]]) simp_all
  then show ?thesis
    by (simp add: row_hH_def hH_of_def default_config_def)
qed

lemma dom_hET:
  assumes "in_range (- 100) 200 tf" and "in_range 0 1000 w"
  shows "in_range 0 (2 * 10 ^ 11) (row_hET default_config rS_default tf w)"
proof -
  have r: "in_range 0 1000 (Fin rS_default)"
    using rS_default_pos rS_default_le by (simp add: in_range_Fin)
  have 1: "at_least (1 / 1000) (fadd (row_rB default_config w) (Fin rS_default))"
    by (rule at_least_add [OF dom_rB [OF assms(2)] r]) simp_all
  have 2: "at_least (2 / 10 ^ 4)
      (fmul (Fin 0.245670633) (fadd (row_rB default_config w) (Fin rS_default)))"
    by (rule at_least_scale [OF 1]) simp_all
  have 3: "in_range 0 (103 * 10 ^ 6)
      (fdiv (row_Slope_Pa_K tf)
         (fmul (Fin 0.245670633) (fadd (row_rB default_config w) (Fin rS_default))))"
    by (rule div_at_least [OF dom_Slope_Pa_K [OF assms(1)] _ 2]) simp_all
  have "in_range 0 (2 * 10 ^ 11)
      (fmul (Fin (1.293 * 1005)) (fdiv (row_Slope_Pa_K tf)
         (fmul (Fin 0.245670633) (fadd (row_rB default_config w) (Fin rS_default)))))"
    by (rule range_scale(2) [OF 3]) simp_all
  then show ?thesis
    by (simp add: row_hET_def hET_of_def default_config_def)
qed

lemma dom_Leaf_Heat_Transfer_Coefficient:
  assumes "in_range (- 100) 200 tf" and "in_range 0 1000 w"
  shows "in_range 1 (3 * 10 ^ 11) (row_Leaf_Heat_Transfer_Coefficient default_config rS_default tf w)"
proof -
  have 1: "in_range 1 (3 * 10 ^ 6) (fadd (row_hLW default_config tf) (row_hH default_config w))"
    by (rule range_add [OF dom_hLW [OF assms(1)] dom_hH [OF assms(2)]]) simp_all
  show ?thesis
    unfolding row_Leaf_Heat_Transfer_Coefficient_def Leaf_Heat_Transfer_Coefficient_of_def
    by (rule range_add [OF 1 dom_hET [OF assms]]) simp_all
qed

lemma dom_condensation_mm:
  assumes "in_range (- 100) 200 tf" and "in_range (- 100) 200 df" and "in_range 0 1000 w"
  shows "in_range (- (10 ^ 13)) (10 ^ 13) (row_condensation_mm default_config rS_default tf df w)"
proof -
  let ?l = "row_Leaf_Heat_Transfer_Coefficient default_config rS_default tf w"
  let ?s = "0.12 * 0.126563029533657 :: real"
  have 1: "in_range 0 (5 * 10 ^ 9) (fmul ?l (Fin ?s))"
    by (rule range_scale(1) [OF dom_Leaf_Heat_Transfer_Coefficient [OF assms(1,3)]]) simp_all
  have 2: "in_range (- 168) 168 (fsub (fahrenheit_to_celsius tf) (fahrenheit_to_celsius df))"
    by (rule range_sub [OF dom_celsius [OF assms(1)] dom_celsius [OF assms(2)]]) simp_all
  have 3: "in_range (- (10 ^ 12)) (10 ^ 12)
      (fmul (fmul ?l (Fin ?s)) (fsub (fahrenheit_to_celsius tf) (fahrenheit_to_celsius df)))"
    by (rule range_mul_any [OF 1 2]) simp_all
  have 4: "in_range (- (10 ^ 6)) (10 ^ 6)
      (fdiv (fmul (fmul ?l (Fin ?s)) (fsub (fahrenheit_to_celsius tf) (fahrenheit_to_celsius df)))
         (Fin 2257000))"
    by (rule range_div_const [OF 3]) simp_all
  have 5: "in_range (- (10 ^ 9)) (10 ^ 9)
      (row_condensation_g_s default_config rS_default tf df w)"
    unfolding row_condensation_g_s_def condensation_g_s_of_def row_Rhe_def Rhe_of_def
    using range_scale(1) [OF 4, of 1000 "- (10 ^ 9)" "10 ^ 9"]
    by (simp add: default_config_def Surface_Area_def)
  let ?g = "row_condensation_g_s default_config rS_default tf df w"
  have 6: "in_range (- (10 ^ 7)) (10 ^ 7) (fdiv ?g (Fin (?s * 10000)))"
    by (rule range_div_const [OF 5]) simp_all
  have 7: "in_range (- (10 ^ 8)) (10 ^ 8) (fmul (fdiv ?g (Fin (?s * 10000))) (Fin 10))"
    by (rule range_scale(1) [OF 6]) simp_all
  have 8: "in_range (- (10 ^ 10)) (10 ^ 10)
      (fmul (fmul (fdiv ?g (Fin (?s * 10000))) (Fin 10)) (Fin 60))"
    by (rule range_scale(1) [OF 7]) simp_all
  have 9: "in_range (- (10 ^ 12)) (10 ^ 12)
      (fmul (fmul (fmul (fdiv ?g (Fin (?s * 10000))) (Fin 10)) (Fin 60)) (Fin 15))"
    by (rule range_scale(1) [OF 8]) simp_all
  have 10: "in_range (- (10 ^ 13)) (10 ^ 13)
      (fmul (fmul (fmul (fmul (fdiv ?g (Fin (?s * 10000))) (Fin 10)) (Fin 60)) (Fin 15)) (Fin 2))"
    by (rule range_scale(1) [OF 9]) simp_all
  have c: "condensation_mm_of default_config ?g =
      fmul (fmul (fmul (fmul (fdiv ?g (Fin (?s * 10000))) (Fin 10)) (Fin 60)) (Fin 15)) (Fin 2)"
    by (simp add: condensation_mm_of_def Surface_Area_def default_config_def)
  show ?thesis
    unfolding row_condensation_mm_def DPD_constraint_def c
    using 10 by (simp add: in_range_Fin)
qed

lemma dom_AVP:
  assumes "in_range (- 100) 200 tf" and "in_range 0 100 rh"
  shows "in_range 0 36100 (row_AVP tf rh)"
proof -
  have 1: "in_range 0 1 (fdiv rh (Fin 100))"
    by (rule range_div_const [OF assms(2)]) simp_all
  show ?thesis
    unfolding row_AVP_def AVP_of_def
    by (rule range_mul [OF dom_SVP [OF assms(1)] 1]) simp_all
qed

lemma log_ratio_range: "in_range 0 1 (Fin (ln 2.55 / ln 5.05))"
proof -
  have a: "0 < ln (2.55::real)" by simp
  have b: "ln (2.55::real) < ln 5.05" by simp
  have "0 \<le> ln (2.55::real) / ln 5.05" "ln (2.55::real) / ln 5.05 \<le> 1"
    using a b by simp_all
  then show ?thesis by (simp add: in_range_Fin)
qed

lemma dom_Transfer_Coefficient:
  assumes "in_range 0 1000 w"
  shows "in_range 0 (10 ^ 10)
           (row_Transfer_Coefficient default_config (Fin (ln 2.55 / ln 5.05)) (1 / 0.0315 ^ 2) w)"
proof -
  have 1: "in_range 0 2682400 (Uz_of w)"
    unfolding Uz_of_def by (rule range_scale(2) [OF assms]) simp_all
  have 2: "in_range 0 2682400 (fmul (Uz_of w) (Fin (ln 2.55 / ln 5.05)))"
    by (rule range_mul [OF 1 log_ratio_range]) simp_all
  have 3: "in_range 0 (3 * 10 ^ 9) (row_Uc (Fin (ln 2.55 / ln 5.05)) (1 / 0.0315 ^ 2) w)"
    unfolding row_Uc_def Uc_of_def
    by (rule range_scale(1) [OF 2]) (simp_all add: power2_eq_square)
  have 4: "in_range 0 (3 * 10 ^ 9)
      (fpow_frac (row_Uc (Fin (ln 2.55 / ln 5.05)) (1 / 0.0315 ^ 2) w) 0.5)"
    by (rule range_powr0 [OF 3]) simp_all
  have "in_range 0 (10 ^ 10)
      (fmul (Fin (0.5 * 1.78577026808484 + (1 - 0.5) * 4.23057517532205))
         (fpow_frac (row_Uc (Fin (ln 2.55 / ln 5.05)) (1 / 0.0315 ^ 2) w) 0.5))"
    by (rule range_scale(2) [OF 4]) simp_all
  then show ?thesis
    by (simp add: row_Transfer_Coefficient_def Transfer_Coefficient_of_def c_shape_def
        default_config_def)
qed

lemma dom_Evaporation:
  assumes "in_range (- 100) 200 tf" and "in_range 0 100 rh" and "in_range 0 1000 w"
  shows "in_range (- (10 ^ 21)) (10 ^ 21)
           (row_Evaporation default_config (Fin (ln 2.55 / ln 5.05)) (1 / 0.0315 ^ 2) tf rh w)"
proof -
  let ?sm = "row_Slope_mbar tf"
  let ?tco = "row_Transfer_Coefficient default_config (Fin (ln 2.55 / ln 5.05)) (1 / 0.0315 ^ 2) w"
  note sm = dom_Slope_mbar [OF assms(1)]
  have 1: "in_range (6 / 10) 56001 (fadd ?sm (Fin 0.670680828))"
    by (rule range_add [OF sm in_range_const]) simp_all
  have 2: "in_range 1400 (2 * 10 ^ 8) (fmul (Fin 2450) (fadd ?sm (Fin 0.670680828)))"
    by (rule range_scale(2) [OF 1]) simp_all
  have a: "in_range 0 40 (fdiv ?sm (fmul (Fin 2450) (fadd ?sm (Fin 0.670680828))))"
    by (rule range_div [OF sm 2]) simp_all
  have 3: "in_range 0 (4 * 10 ^ 14) (fdiv ?tco ?sm)"
    by (rule range_div [OF dom_Transfer_Coefficient [OF assms(3)] sm]) simp_all
  have b: "in_range 0 (5 * 10 ^ 11) (fmul (Fin (0.001225 * 1.012)) (fdiv ?tco ?sm))"
    by (rule range_scale(2) [OF 3]) simp_all
  have ab: "in_range 0 (2 * 10 ^ 13)
      (fmul (fdiv ?sm (fmul (Fin 2450) (fadd ?sm (Fin 0.670680828))))
         (fmul (Fin (0.001225 * 1.012)) (fdiv ?tco ?sm)))"
    by (rule range_mul [OF a b]) simp_all
  have 4: "in_range (- 36100) 36100 (fsub (row_SVP tf) (row_AVP tf rh))"
    by (rule range_sub [OF dom_SVP [OF assms(1)] dom_AVP [OF assms(1,2)]]) simp_all
  have c: "in_range (- 361000) 361000 (fmul (fsub (row_SVP tf) (row_AVP tf rh)) (Fin 10))"
    by (rule range_scale(1) [OF 4]) simp_all
  have "in_range (- (10 ^ 19)) (10 ^ 19)
      (fmul (fmul (fdiv ?sm (fmul (Fin 2450) (fadd ?sm (Fin 0.670680828))))
         (fmul (Fin (0.001225 * 1.012)) (fdiv ?tco ?sm)))
         (fmul (fsub (row_SVP tf) (row_AVP tf rh)) (Fin 10)))"
    by (rule range_mul_any [OF ab c]) simp_all
  then have ep: "in_range (- (10 ^ 19)) (10 ^ 19)
      (row_Ep default_config (Fin (ln 2.55 / ln 5.05)) (1 / 0.0315 ^ 2) tf rh w)"
    by (simp add: row_Ep_def Ep_of_def default_config_def)
  have e: "in_range (- (2 * 10 ^ 18)) (2 * 10 ^ 18)
      (fmul (row_Ep default_config (Fin (ln 2.55 / ln 5.05)) (1 / 0.0315 ^ 2) tf rh w)
         (Fin (0.5 * 0.3)))"
    by (rule range_scale(1) [OF ep]) simp_all
  have 5: "in_range (- (2 * 10 ^ 19)) (2 * 10 ^ 19)
      (fmul (fmul (row_Ep default_config (Fin (ln 2.55 / ln 5.05)) (1 / 0.0315 ^ 2) tf rh w)
         (Fin (0.5 * 0.3))) (Fin 10))"
    by (rule range_scale(1) [OF e]) simp_all
  have "in_range (- (10 ^ 21)) (10 ^ 21)
      (fmul (fmul (fmul (row_Ep default_config (Fin (ln 2.55 / ln 5.05)) (1 / 0.0315 ^ 2) tf rh w)
         (Fin (0.5 * 0.3))) (Fin 10)) (Fin 15))"
    by (rule range_scale(1) [OF 5]) simp_all
  then show ?thesis
    by (simp add: row_Evaporation_def Evaporation_of_def row_E_def E_of_def W_frac_def
        default_config_def)
qed

lemma rain_range: "in_range 0 1 (Rain_Interception_of p)"
  by (simp add: Rain_Interception_of_def in_range_Fin)

lemma dom_wetness:
  assumes "in_range (- 100) 200 tf" and "in_range (- 100) 200 df" and "in_range 0 100 rh"
      and "in_range 0 1000 w"
  shows "is_finite (row_wetness default_config rS_default (Fin (ln 2.55 / ln 5.05))
           (1 / 0.0315 ^ 2) tf df rh w p)"
proof -
  have 1: "in_range (- (10 ^ 14)) (10 ^ 14)
      (fadd (row_condensation_mm default_config rS_default tf df w) (Rain_Interception_of p))"
    by (rule range_add [OF dom_condensation_mm [OF assms(1,2,4)] rain_range]) simp_all
  have 2: "in_range (- (10 ^ 22)) (10 ^ 22)
      (fsub (fadd (row_condensation_mm default_config rS_default tf df w)
               (Rain_Interception_of p))
         (row_Evaporation default_config (Fin (ln 2.55 / ln 5.05)) (1 / 0.0315 ^ 2) tf rh w))"
    by (rule range_sub [OF 1 dom_Evaporation [OF assms(1,3,4)]]) simp_all
  show ?thesis
    using in_range_finite [OF 2]
    by (simp add: row_wetness_def leaf_wetness_row_def no_negative_def)
qed

subsection \<open>The published fields\<close>

text \<open>
  C4, as the code has it. For every row of a run that returns, the four echoes are the
  input cells themselves, and the published wetness is never NaN and never negative: it
  is 0, a positive number or the positive infinity. With the configuration of the
  source, all six published fields of a row are finite when its weather is ordinary: air
  temperature and dew point between -100 and 200 degrees F, relative humidity between 0
  and 100, wind speed between 0 and 1000 mph (the precipitation may be anything). Outside
  such ranges the potential condensation can be NaN or infinite.
\<close>

theorem published_fields_finite:
  assumes "estimate_leaf_wetness data default_config = Inr (data', res)" and "i < nrows data"
  shows "\<exists>tf df rh w cond wet.
     columns data ''AIR_TEMP_F'' = Some tf \<and> columns data ''DEWPOINT_F'' = Some df \<and>
     columns data ''RELATIVE_HUMIDITY_%'' = Some rh \<and>
     columns data ''WIND_SPEED_2M_MPH'' = Some w \<and>
     res ! i =
       [(''AIR_TEMP_F'', tf i), (''DEWPOINT_F'', df i), (''WIND_SPEED_2M_MPH'', w i),
        (''RELATIVE_HUMIDITY_%'', rh i), (''Potential condensation of dew (mm)'', cond),
        (''Estimated Leaf Wetness (mm)'', wet)] \<and>
     wet \<noteq> NaN \<and> wet \<noteq> NInf \<and> \<not> flt wet (Fin 0) \<and>
     (in_range (- 100) 200 (tf i) \<and> in_range (- 100) 200 (df i) \<and>
      in_range 0 100 (rh i) \<and> in_range 0 1000 (w i) \<longrightarrow>
        list_all (\<lambda>(k, v). is_finite v) (res ! i))"
proof -
  from estimate_Inr [OF assms(1)] obtain rs tf df rh w ratio k p where
    s: "rS default_config = Inr rs" "log_profile_ratio default_config = Inr ratio"
       "profile_correction default_config = Inr k" and
    c: "columns data ''AIR_TEMP_F'' = Some tf" "columns data ''DEWPOINT_F'' = Some df"
       "columns data ''RELATIVE_HUMIDITY_%'' = Some rh"
       "columns data ''WIND_SPEED_2M_MPH'' = Some w" and
    r: "res = map (\<lambda>i. row_record default_config rs ratio k (tf i) (df i) (rh i) (w i) (p i))
             [0..<nrows data]"
    by blast
  have v: "rs = rS_default" "ratio = Fin (ln 2.55 / ln 5.05)" "k = 1 / 0.0315 ^ 2"
    using s by (simp_all add: rS_default log_profile_ratio_default profile_correction_default)
  let ?cond = "row_condensation_mm default_config rs (tf i) (df i) (w i)"
  let ?wet = "row_wetness default_config rs ratio k (tf i) (df i) (rh i) (w i) (p i)"
  have rec: "res ! i =
       [(''AIR_TEMP_F'', tf i), (''DEWPOINT_F'', df i), (''WIND_SPEED_2M_MPH'', w i),
        (''RELATIVE_HUMIDITY_%'', rh i), (''Potential condensation of dew (mm)'', ?cond),
        (''Estimated Leaf Wetness (mm)'', ?wet)]"
    using assms(2) by (simp add: r row_record_def)
  have w1: "?wet \<noteq> NaN" and w2: "?wet \<noteq> NInf" and w3: "\<not> flt ?wet (Fin 0)"
    unfolding row_wetness_def no_negative_def fgt_def
    by (cases "leaf_wetness_row (row_condensation_mm default_config rs (tf i) (df i) (w i))
          (Rain_Interception_of (p i))
          (row_Evaporation default_config ratio k (tf i) (rh i) (w i)) (tf i)"; simp)+
  have fin: "in_range (- 100) 200 (tf i) \<and> in_range (- 100) 200 (df i) \<and>
      in_range 0 100 (rh i) \<and> in_range 0 1000 (w i) \<longrightarrow>
        list_all (\<lambda>(k, v). is_finite v)
          [(''AIR_TEMP_F'', tf i), (''DEWPOINT_F'', df i), (''WIND_SPEED_2M_MPH'', w i),
           (''RELATIVE_HUMIDITY_%'', rh i), (''Potential condensation of dew (mm)'', ?cond),
           (''Estimated Leaf Wetness (mm)'', ?wet)]"
  proof
    assume d: "in_range (- 100) 200 (tf i) \<and> in_range (- 100) 200 (df i) \<and>
      in_range 0 100 (rh i) \<and> in_range 0 1000 (w i)"
    then have "is_finite (tf i)" "is_finite (df i)" "is_finite (rh i)" "is_finite (w i)"
      by (auto intro: in_range_finite)
    moreover have "is_finite ?cond"
      using d dom_condensation_mm [of "tf i" "df i" "w i"] by (simp add: v in_range_finite)
    moreover have "is_finite ?wet"
      using d dom_wetness [of "tf i" "df i" "rh i" "w i" "p i"] by (simp add: v)
    ultimately show "list_all (\<lambda>(k, v). is_finite v)
          [(''AIR_TEMP_F'', tf i), (''DEWPOINT_F'', df i), (''WIND_SPEED_2M_MPH'', w i),
           (''RELATIVE_HUMIDITY_%'', rh i), (''Potential condensation of dew (mm)'', ?cond),
           (''Estimated Leaf Wetness (mm)'', ?wet)]"
      by simp
  qed
  show ?thesis
    apply (intro exI conjI)
            apply (rule c(1))
           apply (rule c(2))
          apply (rule c(3))
         apply (rule c(4))
        apply (rule rec)
       apply (rule w1)
      apply (rule w2)
     apply (rule w3)
    unfolding rec by (rule fin)
qed

text \<open>The mild row of the example table: all six published fields are finite.\<close>

theorem published_fields_finite_witness:
  "\<exists>data' res. estimate_leaf_wetness example_frame default_config = Inr (data', res) \<and>
     0 < nrows example_frame \<and> list_all (\<lambda>(k, v). is_finite v) (res ! 0) \<and>
     map fst (res ! 0) = published"
proof -
  obtain data' res where
    est: "estimate_leaf_wetness example_frame default_config = Inr (data', res)"
    unfolding example_frame_def estimate_table by blast
  have n: "0 < nrows example_frame"
    by (simp add: example_frame_def columns_table)
  from published_fields_finite [OF est n] obtain tf df rh w cond wet where
    c: "columns example_frame ''AIR_TEMP_F'' = Some tf"
       "columns example_frame ''DEWPOINT_F'' = Some df"
       "columns example_frame ''RELATIVE_HUMIDITY_%'' = Some rh"
       "columns example_frame ''WIND_SPEED_2M_MPH'' = Some w" and
    rec: "res ! 0 =
       [(''AIR_TEMP_F'', tf 0), (''DEWPOINT_F'', df 0), (''WIND_SPEED_2M_MPH'', w 0),
        (''RELATIVE_HUMIDITY_%'', rh 0), (''Potential condensation of dew (mm)'', cond),
        (''Estimated Leaf Wetness (mm)'', wet)]" and
    fin: "in_range (- 100) 200 (tf 0) \<and> in_range (- 100) 200 (df 0) \<and>
      in_range 0 100 (rh 0) \<and> in_range 0 1000 (w 0) \<longrightarrow>
        list_all (\<lambda>(k, v). is_finite v) (res ! 0)"
    by blast
  have "tf 0 = Fin 70" "df 0 = Fin 50" "rh 0 = Fin 60" "w 0 = Fin 5"
    using c by (auto simp: example_frame_def columns_table series_of_def)
  then have "list_all (\<lambda>(k, v). is_finite v) (res ! 0)"
    using fin by (simp add: in_range_Fin)
  moreover have "map fst (res ! 0) = published"
    by (simp add: rec published_def)
  ultimately show ?thesis using est n by blast
qed

end
